theory Spec2Isabelle
  imports Main "HOL-Library.Multiset"
begin

section \<open>Data model (apps/api/src/db/schema.ts, apps/api/src/types.ts)\<close>

text \<open>
  The enums of the schema are datatypes, the tables are lists of rows in insertion
  order, and a row is a record with one field per column. Timestamps are milliseconds
  since the epoch (\<open>int\<close>); SQL \<open>NULL\<close> and an absent JSON field are \<open>None\<close>.
  The column \<open>id\<close> of the job table is the field \<open>id_job\<close> (\<open>id\<close> is the identity
  function of HOL); the columns of the agent table that share a name with a job column
  carry the prefix \<open>a\<close>; the other tables use a short prefix too.
\<close>

datatype JobStatus = Queued | InProgress | InReview | Completed | Failed | Archived

datatype JobPriority = Low | Medium | High

datatype QueueType = Rework | Backlog

datatype AgentStatus = Active | Idle | Offline

datatype UserInputSource = Slack | Discord | Mobile | GhIssues

datatype UserAcceptanceStatus =
  NotReviewed | ReviewedAndAccepted | ReviewedAndAskedRework | Rejected

record LogEntry =
  level :: string
  timestamp :: string
  message :: string

record UserInput =
  source :: UserInputSource
  prompt :: string
  sourceMetadata :: "string option"

record UserComment =
  file_name :: string
  line_no :: int
  comment_prompt :: string

record job =
  id_job :: string
  version :: int
  orgId :: string
  generatedName :: "string option"
  generatedDescription :: "string option"
  status :: JobStatus
  priority :: JobPriority
  orderInQueue :: int
  queueType :: "QueueType option"
  agentId :: "string option"
  createdAt :: int
  updatedAt :: int
  createdBy :: string
  updatedBy :: string
  codeGenerationLogs :: "LogEntry list option"
  codeVerificationLogs :: "LogEntry list option"
  codeGenerationDetailLogs :: "LogEntry list option"
  userInput :: "UserInput option"
  repoId :: "string option"
  userAcceptanceStatus :: UserAcceptanceStatus
  userComments :: "UserComment list option"
  confidenceScore :: "string option"
  prLink :: "string option"
  updates :: "string option"

record agent =
  aId :: string
  aName :: string
  aOrgId :: string
  aStatus :: AgentStatus
  ip :: "string option"
  host :: "string option"
  port :: int
  lastActive :: "int option"
  consecutiveFailures :: int
  registeredAt :: "int option"
  lastStreamConnectedAt :: "int option"
  aCreatedAt :: int
  aUpdatedAt :: int

record queue_state =
  qsOrgId :: string
  qsQueueType :: QueueType
  isPaused :: bool

record api_key =
  keyHash :: string
  keyOrgId :: string

text \<open>
  An audit row. Its \<open>summary\<close> text and the optional log columns play no part in what is
  proved below and are left out.
\<close>

record activity =
  actId :: string
  actOrgId :: string
  actName :: string
  actJobId :: string
  actCreatedBy :: string

text \<open>
  The store: the tables the modelled code reads and writes, the frames written to agent
  streams (\<open>agentStreamManager\<close>), the agents whose schedules the workflow service was
  asked to start and did, and the lines written with \<open>console.error\<close> and
  \<open>console.warn\<close>.
\<close>

datatype frame = HEALTH_CHECK_PING int

record db =
  jobs :: "job list"
  agents :: "agent list"
  queueStates :: "queue_state list"
  apiKeys :: "api_key list"
  activities :: "activity list"
  sent :: "(string \<times> frame) list"
  schedules :: "string list"
  console :: "string list"

section \<open>Preprocess (apps/api/src/temporal/activities/preprocess-activity.ts)\<close>

text \<open>
  \<open>preprocessActivity\<close> returns \<open>{jobId, queueType, orgId}\<close>, each of them nullable, or
  ends with an exception (\<open>Inl\<close>); the store it leaves is the first component.
  The clock (\<open>Date.now()\<close>, \<open>new Date()\<close>) is the parameter \<open>now\<close>.
\<close>

type_synonym preprocess_result = "string option \<times> QueueType option \<times> string option"

text \<open>The \<open>WHERE\<close> clause of the orphan query (lines 30-38); five minutes in ms.\<close>

definition isOrphan :: "int \<Rightarrow> string \<Rightarrow> string \<Rightarrow> job \<Rightarrow> bool" where
  "isOrphan now org agent j \<longleftrightarrow>
     orgId j = org \<and> status j = InProgress \<and>
     (agentId j = Some agent \<or> updatedAt j < now - 5 * 60 * 1000)"

text \<open>The \<open>SET\<close> clause of the orphan update (lines 44-48).\<close>

definition resetRow :: "int \<Rightarrow> job \<Rightarrow> job" where
  "resetRow now j = j\<lparr>status := Queued, agentId := None, updatedAt := now\<rparr>"

text \<open>
  One \<open>UPDATE ... WHERE id = job.id\<close> of the orphan loop (lines 42-49): the filter is the
  job id alone, so every row that carries this id is written.
\<close>

definition resetJob :: "int \<Rightarrow> string \<Rightarrow> job list \<Rightarrow> job list" where
  "resetJob now i js = map (\<lambda>j. if id_job j = i then resetRow now j else j) js"

text \<open>The loop \<open>for (const job of orphanJobs)\<close> over the rows selected beforehand.\<close>

fun resetOrphans :: "int \<Rightarrow> job list \<Rightarrow> job list \<Rightarrow> job list" where
  "resetOrphans now [] js = js"
| "resetOrphans now (orphan # rest) js = resetOrphans now rest (resetJob now (id_job orphan) js)"

definition reconcileOrphans :: "int \<Rightarrow> string \<Rightarrow> string \<Rightarrow> job list \<Rightarrow> job list" where
  "reconcileOrphans now org agent js = resetOrphans now (filter (isOrphan now org agent) js) js"

text \<open>
  \<open>findFirst\<close> with \<open>orderBy asc(orderInQueue)\<close> (lines 99-106): the first row of the
  matching rows sorted by position. The sort is stable, so among rows of equal position
  (which SQL leaves open) the model takes the one inserted first.
\<close>

definition inQueue :: "string \<Rightarrow> QueueType option \<Rightarrow> job \<Rightarrow> bool" where
  "inQueue org q j \<longleftrightarrow> orgId j = org \<and> status j = Queued \<and> queueType j = q"

definition nextJob :: "string \<Rightarrow> QueueType \<Rightarrow> job list \<Rightarrow> job option" where
  "nextJob org q js =
     (case sort_key orderInQueue (filter (inQueue org (Some q)) js) of
        [] \<Rightarrow> None
      | j # _ \<Rightarrow> Some j)"

text \<open>
  The pause lookup (lines 87-92) reads \<open>db.query.queueStatus\<close> and \<open>schema.queueStatus\<close>.
  The schema module exports the pause table under the name \<open>queueStates\<close> (schema.ts, line
  401) and under no other name, so the member \<open>queueStatus\<close> is \<open>undefined\<close> and reading
  \<open>findFirst\<close> of it throws a \<open>TypeError\<close>. \<open>schemaTable\<close> is the lookup of a table by the
  name the code uses.
\<close>

datatype js_error = TypeError

definition schemaTable :: "string \<Rightarrow> db \<Rightarrow> queue_state list option" where
  "schemaTable name d = (if name = ''queueStates'' then Some (queueStates d) else None)"

text \<open>\<open>queueStatus?.isPaused\<close> (lines 87-96): a missing row counts as not paused.\<close>

definition queuePaused :: "string \<Rightarrow> QueueType \<Rightarrow> queue_state list \<Rightarrow> bool" where
  "queuePaused org q qs =
     (case find (\<lambda>s. qsOrgId s = org \<and> qsQueueType s = q) qs of
        None \<Rightarrow> False
      | Some s \<Rightarrow> isPaused s)"

text \<open>The claiming \<open>UPDATE ... WHERE id = nextJob.id\<close> (lines 110-117), again by id alone.\<close>

definition claimRow :: "int \<Rightarrow> string \<Rightarrow> job \<Rightarrow> job" where
  "claimRow now agent j = j\<lparr>status := InProgress, agentId := Some agent, updatedAt := now\<rparr>"

definition claimJob :: "int \<Rightarrow> string \<Rightarrow> string \<Rightarrow> job list \<Rightarrow> job list" where
  "claimJob now agent i js = map (\<lambda>j. if id_job j = i then claimRow now agent j else j) js"

text \<open>
  The loop \<open>for (const queueType of queueTypes)\<close> and the final return (lines 86-123).
  Each iteration starts with the pause lookup; the activity has no \<open>try\<close>, so the
  \<open>TypeError\<close> of the lookup ends it, with the writes made so far kept (each
  \<open>UPDATE\<close> is a statement of its own, there is no transaction).
\<close>

fun selectQueue ::
  "int \<Rightarrow> string \<Rightarrow> string \<Rightarrow> QueueType list \<Rightarrow> db \<Rightarrow> db \<times> (js_error + preprocess_result)" where
  "selectQueue now agent org [] d = (d, Inr (None, None, Some org))"
| "selectQueue now agent org (q # qs) d =
     (case schemaTable ''queueStatus'' d of
        None \<Rightarrow> (d, Inl TypeError)
      | Some table \<Rightarrow>
          (if queuePaused org q table then selectQueue now agent org qs d
           else case nextJob org q (jobs d) of
                  None \<Rightarrow> selectQueue now agent org qs d
                | Some nj \<Rightarrow>
                    (d\<lparr>jobs := claimJob now agent (id_job nj) (jobs d)\<rparr>,
                     Inr (Some (id_job nj), Some q, Some org))))"

text \<open>
  The heartbeat branch (lines 60-81): a ping is written when the agent has a stream
  (\<open>streams\<close> lists the agents that have one), and the agent row is touched.
\<close>

definition touchAgent :: "int \<Rightarrow> string \<Rightarrow> agent list \<Rightarrow> agent list" where
  "touchAgent now agent as =
     map (\<lambda>a. if aId a = agent
               then a\<lparr>lastActive := Some now, consecutiveFailures := 0, aUpdatedAt := now\<rparr>
               else a) as"

definition heartbeat :: "int \<Rightarrow> string list \<Rightarrow> string \<Rightarrow> db \<Rightarrow> db" where
  "heartbeat now streams agent d =
     (let d1 = (if agent \<in> set streams
                then d\<lparr>sent := sent d @ [(agent, HEALTH_CHECK_PING now)]\<rparr> else d)
      in d1\<lparr>agents := touchAgent now agent (agents d1)\<rparr>)"

definition preprocessActivity ::
  "int \<Rightarrow> string list \<Rightarrow> string \<Rightarrow> db \<Rightarrow> db \<times> (js_error + preprocess_result)" where
  "preprocessActivity now streams agent d =
     (case find (\<lambda>a. aId a = agent) (agents d) of
        None \<Rightarrow> (d, Inr (None, None, None))
      | Some a \<Rightarrow>
          (if aStatus a \<noteq> Active then (d, Inr (None, None, None))
           else
             (let org = aOrgId a;
                  d1 = d\<lparr>jobs := reconcileOrphans now org agent (jobs d)\<rparr>
              in (case find (\<lambda>j. agentId j = Some agent \<and> status j = InProgress) (jobs d1) of
                    Some inProgressJob \<Rightarrow>
                      (heartbeat now streams agent d1, Inr (None, None, Some org))
                  | None \<Rightarrow> selectQueue now agent org [Rework, Backlog] d1))))"

section \<open>Agent registration (apps/api/src/services/agent-registration-service.ts)\<close>

text \<open>
  \<open>hashApiKey\<close> (SHA-256, hex) and \<open>uuidv4\<close> are parameters. \<open>startAgentSchedules\<close> belongs
  to the workflow service, which is not part of the modelled files: the parameter
  \<open>startAgentSchedules\<close> gives, for an agent id, \<open>None\<close> when the call returns and the
  error text when it throws.
\<close>

record RegisterAgentResult =
  resAgentId :: string
  resOrgId :: string
  success :: bool
  resMessage :: string

text \<open>The two \<open>try { await startAgentSchedules(id) } catch { console.warn(...) }\<close> blocks.\<close>

definition tryStartSchedules :: "(string \<Rightarrow> string option) \<Rightarrow> string \<Rightarrow> string \<Rightarrow> db \<Rightarrow> db" where
  "tryStartSchedules startAgentSchedules warning agent d =
     (case startAgentSchedules agent of
        None \<Rightarrow> d\<lparr>schedules := schedules d @ [agent]\<rparr>
      | Some err \<Rightarrow> d\<lparr>console := console d @ [warning @ err]\<rparr>)"

text \<open>The \<open>SET\<close> clause of the update of an existing agent (lines 71-79).\<close>

definition reconnectRow :: "int \<Rightarrow> string \<Rightarrow> int \<Rightarrow> agent \<Rightarrow> agent" where
  "reconnectRow now ipAddress p a =
     a\<lparr>ip := Some ipAddress, port := p, aStatus := Active, consecutiveFailures := 0,
       lastActive := Some now, lastStreamConnectedAt := Some now, aUpdatedAt := now\<rparr>"

definition registerAgent ::
  "(string \<Rightarrow> string) \<Rightarrow> string \<Rightarrow> (string \<Rightarrow> string option) \<Rightarrow> int \<Rightarrow>
   string \<Rightarrow> string \<Rightarrow> string \<Rightarrow> int \<Rightarrow> db \<Rightarrow> db \<times> RegisterAgentResult" where
  "registerAgent hashApiKey uuid startAgentSchedules now apiKey hostname ipAddress p d =
     (case find (\<lambda>k. keyHash k = hashApiKey apiKey) (apiKeys d) of
        None \<Rightarrow>
          (d, \<lparr>resAgentId = '''', resOrgId = '''', success = False,
               resMessage = ''Invalid API key''\<rparr>)
      | Some storedKey \<Rightarrow>
          (let org = keyOrgId storedKey in
           (case find (\<lambda>a. aOrgId a = org \<and> host a = Some hostname) (agents d) of
              Some existing \<Rightarrow>
                (let previousStatus = aStatus existing;
                     d1 = d\<lparr>agents := map (\<lambda>a. if aId a = aId existing
                                               then reconnectRow now ipAddress p a else a)
                                          (agents d)\<rparr>;
                     d2 = (if previousStatus \<noteq> Active
                           then tryStartSchedules startAgentSchedules
                                  (''Failed to start schedule for agent '' @ aId existing @
                                   '' during registration: '')
                                  (aId existing) d1
                           else d1)
                 in (d2, \<lparr>resAgentId = aId existing, resOrgId = org, success = True,
                          resMessage = ''Agent updated successfully''\<rparr>))
            | None \<Rightarrow>
                (let newId = ''agent-'' @ uuid;
                     newAgent = \<lparr>aId = newId, aName = hostname, aOrgId = org, aStatus = Active,
                                 ip = Some ipAddress, host = Some hostname, port = p,
                                 lastActive = Some now, consecutiveFailures = 0,
                                 registeredAt = Some now, lastStreamConnectedAt = Some now,
                                 aCreatedAt = now, aUpdatedAt = now\<rparr>;
                     d1 = d\<lparr>agents := agents d @ [newAgent]\<rparr>;
                     d2 = tryStartSchedules startAgentSchedules
                            (''Failed to start schedule for new agent '' @ newId @
                             '' during registration: '')
                            newId d1
                 in (d2, \<lparr>resAgentId = newId, resOrgId = org, success = True,
                          resMessage = ''Agent registered successfully''\<rparr>)))))"

text \<open>What registration promises about the agent row of id \<open>i\<close>.\<close>

definition registered :: "int \<Rightarrow> string \<Rightarrow> string \<Rightarrow> string \<Rightarrow> int \<Rightarrow> string \<Rightarrow> agent \<Rightarrow> bool" where
  "registered now org hostname ipAddress p i a \<longleftrightarrow>
     aId a = i \<and> aOrgId a = org \<and> host a = Some hostname \<and> aStatus a = Active \<and>
     consecutiveFailures a = 0 \<and> lastActive a = Some now \<and>
     lastStreamConnectedAt a = Some now \<and> ip a = Some ipAddress \<and> port a = p"

section \<open>Ping (temporal/activities/ping-agent-via-stream-activity.ts)\<close>

text \<open>
  What the gRPC health check did is a parameter: it answered with \<open>success = true\<close>,
  it answered with \<open>success = false\<close>, or the call was rejected or lost the race against
  the ten-second timer (the \<open>catch\<close> branch).
\<close>

datatype ping_outcome = Answered bool | Threw

definition connectionError :: string where
  "connectionError = ''Unable to establish the connection. Please check if the agent is running in the host machine in the port configured.''"

definition pingAgentViaStream ::
  "ping_outcome \<Rightarrow> int \<Rightarrow> string \<Rightarrow> db \<Rightarrow> db \<times> bool \<times> string option" where
  "pingAgentViaStream outcome now agent d =
     (case find (\<lambda>a. aId a = agent) (agents d) of
        None \<Rightarrow> (d, False, Some ''Agent not found'')
      | Some agentRecord \<Rightarrow>
          (if outcome = Answered True
           then (d\<lparr>agents := map (\<lambda>a. if aId a = agent
                                       then a\<lparr>aStatus := Active, lastActive := Some now,
                                              consecutiveFailures := 0, aUpdatedAt := now\<rparr>
                                       else a) (agents d)\<rparr>,
                 True, None)
           else (d\<lparr>agents := map (\<lambda>a. if aId a = agent
                                       then a\<lparr>aStatus := Offline,
                                              consecutiveFailures :=
                                                consecutiveFailures agentRecord + 1,
                                              aUpdatedAt := now\<rparr>
                                       else a) (agents d)\<rparr>,
                 False, Some connectionError)))"

section \<open>Job routes (apps/api/src/routes/jobs.ts)\<close>

text \<open>
  What the handlers take from outside is the record \<open>env\<close>: the clock, the text
  \<open>new Date().toLocaleString()\<close> gives for it, the two \<open>uuidv4()\<close> values a request
  draws (job id, activity id), whether the insert into the activity table throws, the
  title generator (\<open>generateJobTitleAndDescription\<close>), and the comparison
  \<open>JSON.stringify(user_input) === JSON.stringify(currentJob.userInput)\<close>.
  The authenticated user is \<open>{id, orgId}\<close>. A reply is the HTTP status code and the body;
  \<open>transformJobResponse\<close> and the read-only lookup of the repo row only shape the body
  and are not modelled: the body carries the job row itself. Of the exceptions of the
  database the model has the one of the activity insert and, in the PUT handler, the
  rejection of a row that does not fit the column types; a lost connection and an
  exception of the title generator are outside the model. A number of a request body is
  an \<open>int\<close>: a fraction sent for an integer column is outside the model too.
\<close>

record env =
  envNow :: int
  envTimestamp :: string
  jobUuid :: string
  activityUuid :: string
  activityInsertThrows :: bool
  generateJobTitleAndDescription :: "string \<Rightarrow> string \<times> string"
  jsonEqual :: "UserInput \<Rightarrow> UserInput option \<Rightarrow> bool"

record user =
  userId :: string
  userOrgId :: string

datatype reply_body =
  Error string
  | JobResponse job
  | Message string job
  | Accepted string string string

type_synonym reply = "nat \<times> reply_body"

record CreateJobRequest =
  cUserInput :: "UserInput option"
  cRepo :: "string option"
  created_by :: string

record UpdateJobRequest =
  generated_name :: "string option"
  generated_description :: "string option"
  bStatus :: "JobStatus option"
  bPriority :: "JobPriority option"
  order_in_queue :: "int option"
  user_input :: "UserInput option"
  repo :: "string option"
  updated_by :: string
  user_comments :: "UserComment list option"
  user_acceptance_status :: "UserAcceptanceStatus option"
  queue_type :: "QueueType option"

subsection \<open>Queue helpers (lines 25-89)\<close>

definition getQueueJobs :: "string \<Rightarrow> QueueType \<Rightarrow> job list \<Rightarrow> job list" where
  "getQueueJobs org q js = sort_key orderInQueue (filter (inQueue org (Some q)) js)"

definition getNextQueuePosition :: "string \<Rightarrow> QueueType \<Rightarrow> job list \<Rightarrow> int" where
  "getNextQueuePosition org q js = int (length (getQueueJobs org q js))"

definition reprioritizeQueueAfterRemoval ::
  "int \<Rightarrow> string \<Rightarrow> QueueType \<Rightarrow> int \<Rightarrow> job list \<Rightarrow> job list" where
  "reprioritizeQueueAfterRemoval now org q removedPosition js =
     map (\<lambda>j. if inQueue org (Some q) j \<and> orderInQueue j > removedPosition
               then j\<lparr>orderInQueue := orderInQueue j - 1, updatedAt := now\<rparr> else j) js"

text \<open>The filter \<open>id = ? AND version = ? AND org_id = ?\<close> that the routes use.\<close>

definition isRow :: "string \<Rightarrow> int \<Rightarrow> string \<Rightarrow> job \<Rightarrow> bool" where
  "isRow i v org j \<longleftrightarrow> id_job j = i \<and> version j = v \<and> orgId j = org"

definition removeJobFromQueue ::
  "int \<Rightarrow> string \<Rightarrow> string \<Rightarrow> int \<Rightarrow> string \<Rightarrow> job list \<Rightarrow> job list" where
  "removeJobFromQueue now i org v uid js =
     map (\<lambda>j. if isRow i v org j
               then j\<lparr>queueType := None, orderInQueue := - 1, updatedAt := now, updatedBy := uid\<rparr>
               else j) js"

text \<open>
  \<open>SELECT ... WHERE id = ? AND org_id = ? ORDER BY version DESC LIMIT 1\<close>: the latest
  version of a job inside the caller's org.
\<close>

definition latestJob :: "string \<Rightarrow> string \<Rightarrow> job list \<Rightarrow> job option" where
  "latestJob i org js =
     (case sort_key (\<lambda>j. - version j) (filter (\<lambda>j. id_job j = i \<and> orgId j = org) js) of
        [] \<Rightarrow> None
      | j # _ \<Rightarrow> Some j)"

subsection \<open>\<open>createActivity\<close> (lines 97-126)\<close>

text \<open>
  The insert either appends the row or throws; the \<open>try/catch\<close> around it turns the
  exception into a \<open>console.error\<close> line, and the function returns normally either way.
\<close>

datatype db_error = InsertFailed

definition insertActivity :: "env \<Rightarrow> activity \<Rightarrow> db \<Rightarrow> db_error + db" where
  "insertActivity e a d =
     (if activityInsertThrows e then Inl InsertFailed
      else Inr (d\<lparr>activities := activities d @ [a]\<rparr>))"

definition createActivity :: "env \<Rightarrow> string \<Rightarrow> string \<Rightarrow> string \<Rightarrow> string \<Rightarrow> db \<Rightarrow> db" where
  "createActivity e jobId name uid org d =
     (case insertActivity e
             \<lparr>actId = activityUuid e, actOrgId = org, actName = name, actJobId = jobId,
              actCreatedBy = uid\<rparr> d of
        Inr d' \<Rightarrow> d'
      | Inl err \<Rightarrow> d\<lparr>console := console d @ [''Failed to create activity:'']\<rparr>)"

text \<open>JavaScript's \<open>a || b\<close> on strings: the empty string is falsy.\<close>

definition orElse :: "string \<Rightarrow> string \<Rightarrow> string" where
  "orElse a b = (if a = [] then b else a)"

subsection \<open>POST /jobs (lines 244-340)\<close>

definition postJob :: "env \<Rightarrow> user \<Rightarrow> CreateJobRequest \<Rightarrow> db \<Rightarrow> db \<times> reply" where
  "postJob e u body d =
     (case cUserInput body of
        None \<Rightarrow> (d, 400, Error ''user_input with source and prompt is required'')
      | Some ui \<Rightarrow>
          (if prompt ui = [] then (d, 400, Error ''user_input with source and prompt is required'')
           else
             (let (title, description) = generateJobTitleAndDescription e (prompt ui);
                  nextBacklogPosition = getNextQueuePosition (userOrgId u) Backlog (jobs d);
                  newJob = \<lparr>id_job = ''job-'' @ jobUuid e, version = 1, orgId = userOrgId u,
                            generatedName = Some title, generatedDescription = Some description,
                            status = Queued, priority = Medium,
                            orderInQueue = nextBacklogPosition, queueType = Some Backlog,
                            agentId = None, createdAt = envNow e, updatedAt = envNow e,
                            createdBy = created_by body, updatedBy = created_by body,
                            codeGenerationLogs = None, codeVerificationLogs = None,
                            codeGenerationDetailLogs = None,
                            userInput = Some \<lparr>source = source ui, prompt = prompt ui,
                                                sourceMetadata = sourceMetadata ui\<rparr>,
                            repoId = (case cRepo body of None \<Rightarrow> None
                                      | Some r \<Rightarrow> if r = [] then None else Some r),
                            userAcceptanceStatus = NotReviewed, userComments = None,
                            confidenceScore = None, prLink = None, updates = None\<rparr>;
                  d1 = d\<lparr>jobs := jobs d @ [newJob]\<rparr>;
                  d2 = createActivity e (id_job newJob) ''Job Created''
                         (orElse (created_by body) (userId u)) (userOrgId u) d1
              in (d2, 201, JobResponse newJob))))"

subsection \<open>DELETE /jobs/:id (lines 1370-1449)\<close>

definition archiveRow :: "int \<Rightarrow> string \<Rightarrow> job \<Rightarrow> job" where
  "archiveRow now uid j = j\<lparr>status := Archived, updatedAt := now, updatedBy := uid\<rparr>"

text \<open>
  \<open>updatedJobResult[0]\<close> is the first row the update returned; were there none, reading
  \<open>deletedJob.repoId\<close> would throw and the outer \<open>catch\<close> answer 500.
\<close>

definition deleteJob :: "env \<Rightarrow> user \<Rightarrow> string \<Rightarrow> db \<Rightarrow> db \<times> reply" where
  "deleteJob e u i d =
     (case latestJob i (userOrgId u) (jobs d) of
        None \<Rightarrow> (d, 404, Error ''Job not found'')
      | Some currentJob \<Rightarrow>
          (if status currentJob = Archived then (d, 400, Error ''Job is already archived'')
           else
             (let d1 = d\<lparr>jobs := map (\<lambda>j. if isRow i (version currentJob) (userOrgId u) j
                                           then archiveRow (envNow e) (userId u) j else j)
                                      (jobs d)\<rparr>
              in (case find (isRow i (version currentJob) (userOrgId u)) (jobs d1) of
                    None \<Rightarrow> (d1, 500, Error ''Failed to delete job'')
                  | Some deletedJob \<Rightarrow>
                      (createActivity e (id_job deletedJob) ''Job Deleted'' (userId u)
                         (userOrgId u) d1,
                       200, JobResponse deletedJob)))))"

subsection \<open>POST /jobs/:id/execute (lines 1530-1598)\<close>

text \<open>
  \<open>jobExecutionService\<close> is not part of the modelled files: \<open>isExecuting\<close> is its answer
  for the job id, \<open>scheduleJob\<close> gives the workflow id or \<open>None\<close> when the call throws
  (the outer \<open>catch\<close> then answers 500; the queue writes before it are not undone).
\<close>

definition executeJob ::
  "env \<Rightarrow> (string \<Rightarrow> bool) \<Rightarrow> (string \<Rightarrow> string \<Rightarrow> string option) \<Rightarrow> user \<Rightarrow> string \<Rightarrow> db \<Rightarrow> db \<times> reply" where
  "executeJob e isExecuting scheduleJob u i d =
     (case latestJob i (userOrgId u) (jobs d) of
        None \<Rightarrow> (d, 404, Error ''Job not found'')
      | Some j \<Rightarrow>
          (case queueType j of
             None \<Rightarrow> (d, 400, Error ''Job must be in a queue (rework or backlog) to execute'')
           | Some q \<Rightarrow>
               (if status j \<noteq> Queued
                then (d, 400, Error ''Job must be in a queue (rework or backlog) to execute'')
                else if isExecuting i then (d, 400, Error ''Job is already executing'')
                else
                  (let js1 = removeJobFromQueue (envNow e) i (userOrgId u) (version j)
                               (userId u) (jobs d);
                       js2 = reprioritizeQueueAfterRemoval (envNow e) (userOrgId u) q
                               (orderInQueue j) js1;
                       d2 = d\<lparr>jobs := js2\<rparr>
                   in (case scheduleJob i (userOrgId u) of
                         None \<Rightarrow> (d2, 500, Error ''Failed to start job execution'')
                       | Some workflowId \<Rightarrow>
                           (createActivity e (id_job j) ''Job Execution Started'' (userId u)
                              (userOrgId u) d2,
                            202, Accepted ''Job execution started'' i workflowId))))))"

subsection \<open>POST /jobs/:id/reprioritize (lines 1674-1864)\<close>

text \<open>
  \<open>reorderedJobs.splice(newPosition, 0, job)\<close> for a non-negative position: the job is
  inserted before index \<open>newPosition\<close>, or at the end when the list is shorter.
\<close>

definition spliceAt :: "nat \<Rightarrow> 'a \<Rightarrow> 'a list \<Rightarrow> 'a list" where
  "spliceAt n x xs = take n xs @ [x] @ drop n xs"

text \<open>
  One element of \<open>reorderedJobs.map((j, index) => ...)\<close>: the moved job is always written
  (with \<open>updatedBy\<close>), another job only when its fetched position differs from its index.
  The success message of the route, which spells out both positions, is shortened to
  \<open>Job reprioritized\<close>.
\<close>

definition writePosition :: "int \<Rightarrow> user \<Rightarrow> string \<Rightarrow> int \<Rightarrow> job \<Rightarrow> nat \<Rightarrow> job list \<Rightarrow> job list" where
  "writePosition now u i v j index js =
     (if id_job j = i \<and> version j = v
      then map (\<lambda>r. if isRow (id_job j) (version j) (userOrgId u) r
                     then r\<lparr>orderInQueue := int index, updatedAt := now, updatedBy := userId u\<rparr>
                     else r) js
      else if orderInQueue j \<noteq> int index
      then map (\<lambda>r. if isRow (id_job j) (version j) (userOrgId u) r
                     then r\<lparr>orderInQueue := int index, updatedAt := now\<rparr>
                     else r) js
      else js)"

fun writePositions :: "int \<Rightarrow> user \<Rightarrow> string \<Rightarrow> int \<Rightarrow> job list \<Rightarrow> nat \<Rightarrow> job list \<Rightarrow> job list" where
  "writePositions now u i v [] index js = js"
| "writePositions now u i v (j # rest) index js =
     writePositions now u i v rest (Suc index) (writePosition now u i v j index js)"

definition reprioritizeJob :: "env \<Rightarrow> user \<Rightarrow> string \<Rightarrow> int \<Rightarrow> db \<Rightarrow> db \<times> reply" where
  "reprioritizeJob e u i newPosition d =
     (if newPosition < 0 then (d, 400, Error ''Position must be non-negative'')
      else
        (case latestJob i (userOrgId u) (jobs d) of
           None \<Rightarrow> (d, 404, Error ''Job not found'')
         | Some j \<Rightarrow>
             (if status j \<noteq> Queued then (d, 400, Error ''Only queued jobs can be reprioritized'')
              else if newPosition = orderInQueue j
              then (d, 200, Message ''Job is already at the requested position'' j)
              else
                (let allQueueJobs = sort_key orderInQueue
                                      (filter (inQueue (userOrgId u) (queueType j)) (jobs d));
                     otherJobs = filter (\<lambda>r. id_job r \<noteq> i \<or> version r \<noteq> version j)
                                   allQueueJobs;
                     reorderedJobs = spliceAt (nat newPosition) j otherJobs;
                     d1 = d\<lparr>jobs := writePositions (envNow e) u i (version j) reorderedJobs 0
                                        (jobs d)\<rparr>
                 in (case find (isRow i (version j) (userOrgId u)) (jobs d1) of
                       None \<Rightarrow> (d1, 500, Error ''Failed to reprioritize job'')
                     | Some updatedJob \<Rightarrow>
                         (createActivity e (id_job updatedJob) ''Job Order Changed'' (userId u)
                            (userOrgId u) d1,
                          200, Message ''Job reprioritized'' updatedJob))))))"

text \<open>
  The primary key of the job table is \<open>(id, version)\<close>. \<open>masked\<close> blanks the three
  columns reprioritization writes; \<open>written rs index t t'\<close> relates a row \<open>t\<close> to what it is
  after the positions \<open>index, index + 1, ...\<close> were written for the rows \<open>rs\<close>: nothing but the
  three columns differs, a row of \<open>rs\<close> holds its index, any other row is untouched.
\<close>

definition jobKey :: "job \<Rightarrow> string \<times> int" where
  "jobKey t = (id_job t, version t)"

definition masked :: "job \<Rightarrow> job" where
  "masked t = t\<lparr>orderInQueue := 0, updatedAt := 0, updatedBy := []\<rparr>"

definition written :: "job list \<Rightarrow> nat \<Rightarrow> job \<Rightarrow> job \<Rightarrow> bool" where
  "written rs index t t' \<longleftrightarrow>
     masked t' = masked t \<and>
     (\<forall>k<length rs. jobKey (rs ! k) = jobKey t \<longrightarrow> orderInQueue t' = int (index + k)) \<and>
     (jobKey t \<notin> jobKey ` set rs \<longrightarrow> t' = t)"

subsection \<open>PUT /jobs/:id (lines 709-1297)\<close>

text \<open>
  \<open>String.prototype.trim\<close> removes white space and line terminators at both ends. A
  character of a \<open>string\<close> of HOL is a code point below 256; of these, tab, line feed,
  vertical tab, form feed, carriage return, space and the no-break space (U+00A0) are
  the ones \<open>trim\<close> removes.
\<close>

definition isSpace :: "char \<Rightarrow> bool" where
  "isSpace c \<longleftrightarrow>
     c \<in> set [CHR 0x09, CHR 0x0A, CHR 0x0B, CHR 0x0C, CHR 0x0D, CHR '' '', CHR 0xA0]"

definition trim :: "string \<Rightarrow> string" where
  "trim s = rev (dropWhile isSpace (rev (dropWhile isSpace s)))"

definition statusText :: "JobStatus \<Rightarrow> string" where
  "statusText s =
     (case s of Queued \<Rightarrow> ''queued'' | InProgress \<Rightarrow> ''in-progress'' | InReview \<Rightarrow> ''in-review''
      | Completed \<Rightarrow> ''completed'' | Failed \<Rightarrow> ''failed'' | Archived \<Rightarrow> ''archived'')"

text \<open>\<open>currentJob.userComments?.length || 0\<close>.\<close>

definition commentCount :: "job \<Rightarrow> nat" where
  "commentCount j = (case userComments j of None \<Rightarrow> 0 | Some cs \<Rightarrow> length cs)"

definition promptChanged :: "UpdateJobRequest \<Rightarrow> job \<Rightarrow> bool" where
  "promptChanged body currentJob =
     (case user_input body of
        None \<Rightarrow> False
      | Some ui \<Rightarrow> prompt ui \<noteq> [] \<and> Some (prompt ui) \<noteq> map_option prompt (userInput currentJob))"

text \<open>
  The test repeated at lines 933-936 and 1140-1143: the target queue is rework and the
  request carries more comments than the current version.
\<close>

definition moreComments :: "UpdateJobRequest \<Rightarrow> job \<Rightarrow> bool" where
  "moreComments body currentJob =
     (queue_type body = Some Rework \<and>
      (case user_comments body of
         None \<Rightarrow> False
       | Some cs \<Rightarrow> length cs > commentCount currentJob))"

definition isRetry :: "UpdateJobRequest \<Rightarrow> job \<Rightarrow> bool" where
  "isRetry body currentJob \<longleftrightarrow> bStatus body = Some Queued \<and> moreComments body currentJob"

definition needsNewVersion :: "env \<Rightarrow> UpdateJobRequest \<Rightarrow> job \<Rightarrow> bool" where
  "needsNewVersion e body currentJob \<longleftrightarrow>
     (case user_input body of
        None \<Rightarrow> False
      | Some ui \<Rightarrow> \<not> jsonEqual e ui (userInput currentJob)) \<or>
     (case repo body of None \<Rightarrow> False | Some r \<Rightarrow> Some r \<noteq> repoId currentJob) \<or>
     (user_acceptance_status body = Some ReviewedAndAskedRework \<and>
      userAcceptanceStatus currentJob \<noteq> ReviewedAndAskedRework) \<or>
     isRetry body currentJob"

text \<open>
  Lines 791-874: the queue writes that precede the branch on \<open>needsNewVersion\<close>. The
  result is the job table, \<open>reworkOrderInQueue\<close> and \<open>targetQueueType\<close>.
\<close>

type_synonym queue_plan = "job list \<times> int \<times> QueueType option"

definition leaveForReview :: "env \<Rightarrow> user \<Rightarrow> UpdateJobRequest \<Rightarrow> job \<Rightarrow> job list \<Rightarrow> job list" where
  "leaveForReview e u body currentJob js =
     (if bStatus body = Some InReview \<and> status currentJob \<noteq> InReview \<and>
         status currentJob = Queued
      then (case queueType currentJob of
              None \<Rightarrow> js
            | Some q \<Rightarrow> reprioritizeQueueAfterRemoval (envNow e) (userOrgId u) q
                         (orderInQueue currentJob) js)
      else js)"

definition askRework :: "env \<Rightarrow> user \<Rightarrow> UpdateJobRequest \<Rightarrow> job \<Rightarrow> queue_plan \<Rightarrow> queue_plan" where
  "askRework e u body currentJob plan =
     (case plan of (js, reworkOrderInQueue, targetQueueType) \<Rightarrow>
        if user_acceptance_status body = Some ReviewedAndAskedRework \<and>
           userAcceptanceStatus currentJob \<noteq> ReviewedAndAskedRework
        then (let js1 = (if status currentJob = Queued \<and> queueType currentJob = Some Backlog
                         then reprioritizeQueueAfterRemoval (envNow e) (userOrgId u) Backlog
                                (orderInQueue currentJob) js
                         else js)
              in (js1, getNextQueuePosition (userOrgId u) Rework js1, Some Rework))
        else plan)"

definition backToBacklog :: "env \<Rightarrow> user \<Rightarrow> UpdateJobRequest \<Rightarrow> job \<Rightarrow> queue_plan \<Rightarrow> queue_plan" where
  "backToBacklog e u body currentJob plan =
     (case plan of (js, reworkOrderInQueue, targetQueueType) \<Rightarrow>
        if user_acceptance_status body = Some NotReviewed \<and>
           userAcceptanceStatus currentJob = ReviewedAndAskedRework \<and>
           status currentJob = Queued
        then (let js1 = (if queueType currentJob = Some Rework
                         then reprioritizeQueueAfterRemoval (envNow e) (userOrgId u) Rework
                                (orderInQueue currentJob) js
                         else js)
              in (js1, getNextQueuePosition (userOrgId u) Backlog js1, Some Backlog))
        else plan)"

definition requeue :: "user \<Rightarrow> UpdateJobRequest \<Rightarrow> job \<Rightarrow> queue_plan \<Rightarrow> queue_plan" where
  "requeue u body currentJob plan =
     (case plan of (js, reworkOrderInQueue, targetQueueType) \<Rightarrow>
        if bStatus body = Some Queued \<and> status currentJob \<noteq> Queued
        then (let targetQueue = (if userAcceptanceStatus currentJob = ReviewedAndAskedRework
                                 then Rework else Backlog)
              in (js, getNextQueuePosition (userOrgId u) targetQueue js, Some targetQueue))
        else plan)"

definition queuePlan :: "env \<Rightarrow> user \<Rightarrow> UpdateJobRequest \<Rightarrow> job \<Rightarrow> job list \<Rightarrow> queue_plan" where
  "queuePlan e u body currentJob js =
     requeue u body currentJob
       (backToBacklog e u body currentJob
          (askRework e u body currentJob
             (leaveForReview e u body currentJob js, orderInQueue currentJob, None)))"

text \<open>The message for a changed status (lines 919-950 and 1125-1157, the same text).\<close>

definition updateMessage :: "env \<Rightarrow> UpdateJobRequest \<Rightarrow> job \<Rightarrow> JobStatus \<Rightarrow> string" where
  "updateMessage e body currentJob s =
     (case s of
        Failed \<Rightarrow> ''Job execution failed at '' @ envTimestamp e @ ''.''
      | Completed \<Rightarrow> ''Job completed successfully at '' @ envTimestamp e @ ''.''
      | InReview \<Rightarrow> ''Job moved to review state at '' @ envTimestamp e @ ''.''
      | InProgress \<Rightarrow> ''Job execution started at '' @ envTimestamp e @ ''.''
      | Queued \<Rightarrow>
          (if moreComments body currentJob
           then (let commentText = (case user_comments body of
                                      None \<Rightarrow> []
                                    | Some cs \<Rightarrow> if cs = [] then []
                                                else trim (comment_prompt (last cs)))
                 in if commentText \<noteq> [] \<and> commentText \<noteq> ''No comment provided''
                    then ''User retried the job at '' @ envTimestamp e @
                         '' and added a comment: '' @ [CHR 0x22] @ commentText @
                         [CHR 0x22] @
                         ''. Job is now waiting to be scheduled in the rework queue.''
                    else ''User retried the job at '' @ envTimestamp e @
                         ''. Job is now waiting to be scheduled in the rework queue.'')
           else ''Job queued at '' @ envTimestamp e @ ''.'')
      | Archived \<Rightarrow> ''Job status changed from '' @ statusText (status currentJob) @ '' to '' @
                    statusText s @ '' at '' @ envTimestamp e @ ''.'')"

text \<open>\<open>a ?? b\<close> on an optional request field and a column.\<close>

definition orCurrent :: "'a option \<Rightarrow> 'a \<Rightarrow> 'a" where
  "orCurrent requested current = (case requested of None \<Rightarrow> current | Some x \<Rightarrow> x)"

text \<open>Lines 876-1000: the row of the new version.\<close>

definition newVersionRow :: "env \<Rightarrow> user \<Rightarrow> string \<Rightarrow> UpdateJobRequest \<Rightarrow> job \<Rightarrow> queue_plan \<Rightarrow> job" where
  "newVersionRow e u i body currentJob plan =
     (case plan of (js, reworkOrderInQueue, targetQueueType) \<Rightarrow>
        let newStatus = orCurrent (bStatus body) (status currentJob);
            (newQueueType, newOrderInQueue) =
              (if newStatus = Queued
               then (case queue_type body of
                       Some q \<Rightarrow> (Some q, getNextQueuePosition (userOrgId u) q js)
                     | None \<Rightarrow>
                         (let finalUserAcceptanceStatus =
                                orCurrent (user_acceptance_status body)
                                  (userAcceptanceStatus currentJob);
                              q = (if finalUserAcceptanceStatus = ReviewedAndAskedRework
                                   then Rework else Backlog)
                          in (Some q,
                              (case targetQueueType of
                                 Some t \<Rightarrow> reworkOrderInQueue
                               | None \<Rightarrow> getNextQueuePosition (userOrgId u) q js))))
               else if bStatus body = Some InProgress \<or> bStatus body = Some InReview
               then (None, - 1)
               else (queueType currentJob, orderInQueue currentJob));
            newUpdates =
              (case bStatus body of
                 None \<Rightarrow> (if updates currentJob = Some [] then None else updates currentJob)
               | Some s \<Rightarrow>
                   if s \<noteq> status currentJob
                   then (case updates currentJob of
                           None \<Rightarrow> Some (updateMessage e body currentJob s)
                         | Some old \<Rightarrow>
                             if old = [] then Some (updateMessage e body currentJob s)
                             else Some (old @ [CHR 0x0A] @ updateMessage e body currentJob s))
                   else (if updates currentJob = Some [] then None else updates currentJob));
            generated = (case user_input body of
                           None \<Rightarrow> ([], [])
                         | Some ui \<Rightarrow> generateJobTitleAndDescription e (prompt ui))
        in \<lparr>id_job = i, version = version currentJob + 1, orgId = orgId currentJob,
            generatedName =
              (case generated_name body of
                 Some n \<Rightarrow> Some n
               | None \<Rightarrow> if promptChanged body currentJob then Some (fst generated)
                         else generatedName currentJob),
            generatedDescription =
              (case generated_description body of
                 Some n \<Rightarrow> Some n
               | None \<Rightarrow> if promptChanged body currentJob then Some (snd generated)
                         else generatedDescription currentJob),
            status = newStatus,
            priority = orCurrent (bPriority body) (priority currentJob),
            orderInQueue = orCurrent (order_in_queue body) newOrderInQueue,
            queueType = newQueueType,
            agentId = None, createdAt = envNow e, updatedAt = envNow e,
            createdBy = createdBy currentJob, updatedBy = updated_by body,
            codeGenerationLogs =
              (if isRetry body currentJob then None else codeGenerationLogs currentJob),
            codeVerificationLogs =
              (if isRetry body currentJob then None else codeVerificationLogs currentJob),
            codeGenerationDetailLogs = None,
            userInput =
              (case user_input body of
                 Some ui \<Rightarrow> Some \<lparr>source = source ui, prompt = prompt ui,
                                   sourceMetadata = sourceMetadata ui\<rparr>
               | None \<Rightarrow> userInput currentJob),
            repoId = (case repo body of Some r \<Rightarrow> Some r | None \<Rightarrow> repoId currentJob),
            userAcceptanceStatus =
              orCurrent (user_acceptance_status body) (userAcceptanceStatus currentJob),
            userComments =
              (case user_comments body of Some cs \<Rightarrow> Some cs | None \<Rightarrow> userComments currentJob),
            confidenceScore = confidenceScore currentJob, prLink = prLink currentJob,
            updates = newUpdates\<rparr>)"

text \<open>
  Lines 1071-1179: \<open>updateData\<close>, the columns the in-place update sets, as a function on
  the row it is applied to. Later assignments overwrite earlier ones, as in the source.
\<close>

definition setNames :: "env \<Rightarrow> UpdateJobRequest \<Rightarrow> job \<Rightarrow> job \<Rightarrow> job" where
  "setNames e body currentJob r =
     (if promptChanged body currentJob
      then (let generated = (case user_input body of
                               None \<Rightarrow> ([], [])
                             | Some ui \<Rightarrow> generateJobTitleAndDescription e (prompt ui))
            in r\<lparr>generatedName := Some (orCurrent (generated_name body) (fst generated)),
                 generatedDescription :=
                   Some (orCurrent (generated_description body) (snd generated))\<rparr>)
      else (let r1 = (case generated_name body of
                        None \<Rightarrow> r | Some n \<Rightarrow> r\<lparr>generatedName := Some n\<rparr>)
            in (case generated_description body of
                  None \<Rightarrow> r1 | Some n \<Rightarrow> r1\<lparr>generatedDescription := Some n\<rparr>)))"

definition setStatus :: "env \<Rightarrow> user \<Rightarrow> UpdateJobRequest \<Rightarrow> job \<Rightarrow> queue_plan \<Rightarrow> job \<Rightarrow> job" where
  "setStatus e u body currentJob plan r =
     (case plan of (js, reworkOrderInQueue, targetQueueType) \<Rightarrow>
        (case bStatus body of
           None \<Rightarrow> r
         | Some s \<Rightarrow>
             (let r1 = r\<lparr>status := s\<rparr>;
                  r2 = (if s = InProgress \<or> s = InReview
                        then r1\<lparr>queueType := None, orderInQueue := - 1\<rparr>
                        else if s = Queued
                        then (case queue_type body of
                                Some q \<Rightarrow>
                                  r1\<lparr>queueType := Some q,
                                     orderInQueue := getNextQueuePosition (userOrgId u) q js\<rparr>
                              | None \<Rightarrow>
                                  (case targetQueueType of
                                     Some t \<Rightarrow>
                                       r1\<lparr>queueType := Some t, orderInQueue := reworkOrderInQueue\<rparr>
                                   | None \<Rightarrow>
                                       (let finalUserAcceptanceStatus =
                                              orCurrent (user_acceptance_status body)
                                                (userAcceptanceStatus currentJob);
                                            q = (if finalUserAcceptanceStatus =
                                                    ReviewedAndAskedRework
                                                 then Rework else Backlog)
                                        in r1\<lparr>queueType := Some q,
                                              orderInQueue :=
                                                getNextQueuePosition (userOrgId u) q js\<rparr>)))
                        else r1)
              in if s \<noteq> status currentJob
                 then (let existingUpdates = (case updates currentJob of None \<Rightarrow> [] | Some t \<Rightarrow> t);
                           msg = updateMessage e body currentJob s
                       in r2\<lparr>updates := Some (if existingUpdates \<noteq> []
                                              then msg @ [CHR 0x0A] @ existingUpdates
                                              else msg)\<rparr>)
                 else r2)))"

definition setRest :: "UpdateJobRequest \<Rightarrow> job \<Rightarrow> queue_plan \<Rightarrow> job \<Rightarrow> job" where
  "setRest body currentJob plan r =
     (case plan of (js, reworkOrderInQueue, targetQueueType) \<Rightarrow>
        (let r1 = (case bPriority body of None \<Rightarrow> r | Some p \<Rightarrow> r\<lparr>priority := p\<rparr>);
             r2 = (case order_in_queue body of None \<Rightarrow> r1 | Some n \<Rightarrow> r1\<lparr>orderInQueue := n\<rparr>);
             r3 = (case user_comments body of None \<Rightarrow> r2 | Some cs \<Rightarrow> r2\<lparr>userComments := Some cs\<rparr>)
         in (case user_acceptance_status body of
               None \<Rightarrow> r3
             | Some a \<Rightarrow>
                 (let r4 = r3\<lparr>userAcceptanceStatus := a\<rparr>
                  in (case targetQueueType of
                        None \<Rightarrow> r4
                      | Some t \<Rightarrow>
                          if status currentJob = Queued
                          then r4\<lparr>queueType := Some t, orderInQueue := reworkOrderInQueue\<rparr>
                          else r4)))))"

definition updateData :: "env \<Rightarrow> user \<Rightarrow> UpdateJobRequest \<Rightarrow> job \<Rightarrow> queue_plan \<Rightarrow> job \<Rightarrow> job" where
  "updateData e u body currentJob plan r =
     setRest body currentJob plan
       (setStatus e u body currentJob plan
          (setNames e body currentJob
             (r\<lparr>updatedBy := updated_by body, updatedAt := envNow e\<rparr>)))"

text \<open>
  The column types of the job table (schema.ts, lines 102-163): \<open>version\<close> and
  \<open>order_in_queue\<close> are \<open>integer\<close> (32 bits, signed), the text columns are
  \<open>varchar(n)\<close>, the logs, the user input and the comments are \<open>jsonb\<close>. PostgreSQL
  rejects an \<open>INSERT\<close> or \<open>UPDATE\<close> that writes a value outside its column type: a
  number beyond 32 bits, a text longer than \<open>n\<close> characters, and in a text or a \<open>jsonb\<close>
  string the character with code 0. The statement then throws and writes nothing.
  \<open>fitsColumns\<close> is that check on a row; the rows already stored fit, so on an \<open>UPDATE\<close>
  the check of the written row is the check of the columns it sets.
\<close>

definition int32 :: "int \<Rightarrow> bool" where
  "int32 n \<longleftrightarrow> - 2147483648 \<le> n \<and> n \<le> 2147483647"

definition textOk :: "string \<Rightarrow> bool" where
  "textOk t \<longleftrightarrow> CHR 0x00 \<notin> set t"

definition varchar :: "nat \<Rightarrow> string option \<Rightarrow> bool" where
  "varchar n s = (case s of None \<Rightarrow> True | Some t \<Rightarrow> length t \<le> n \<and> textOk t)"

definition logsOk :: "LogEntry list option \<Rightarrow> bool" where
  "logsOk ls =
     (case ls of
        None \<Rightarrow> True
      | Some es \<Rightarrow> list_all (\<lambda>l. textOk (level l) \<and> textOk (timestamp l) \<and> textOk (message l)) es)"

definition userInputOk :: "UserInput option \<Rightarrow> bool" where
  "userInputOk ui =
     (case ui of
        None \<Rightarrow> True
      | Some i \<Rightarrow> textOk (prompt i) \<and>
                  (case sourceMetadata i of None \<Rightarrow> True | Some m \<Rightarrow> textOk m))"

definition commentsOk :: "UserComment list option \<Rightarrow> bool" where
  "commentsOk cs =
     (case cs of
        None \<Rightarrow> True
      | Some l \<Rightarrow> list_all (\<lambda>c. textOk (file_name c) \<and> textOk (comment_prompt c)) l)"

definition fitsColumns :: "job \<Rightarrow> bool" where
  "fitsColumns j \<longleftrightarrow>
     varchar 255 (Some (id_job j)) \<and> int32 (version j) \<and> varchar 255 (Some (orgId j)) \<and>
     varchar 500 (generatedName j) \<and> varchar 2000 (generatedDescription j) \<and>
     int32 (orderInQueue j) \<and> varchar 255 (agentId j) \<and>
     varchar 255 (Some (createdBy j)) \<and> varchar 255 (Some (updatedBy j)) \<and>
     logsOk (codeGenerationLogs j) \<and> logsOk (codeVerificationLogs j) \<and>
     logsOk (codeGenerationDetailLogs j) \<and> userInputOk (userInput j) \<and>
     varchar 255 (repoId j) \<and> commentsOk (userComments j) \<and>
     varchar 50 (confidenceScore j) \<and> varchar 500 (prLink j) \<and>
     varchar 10000 (updates j)"

text \<open>
  The handler (lines 709-1297). The queue writes of \<open>queuePlan\<close> are statements of their
  own and come first; the \<open>INSERT\<close> of the new version, or the \<open>UPDATE\<close> of the latest
  one, follows. When that statement throws, the \<open>catch\<close> of the handler (lines 1292-1295)
  answers 500, and the queue writes stay.
\<close>

definition putJob :: "env \<Rightarrow> user \<Rightarrow> string \<Rightarrow> UpdateJobRequest \<Rightarrow> db \<Rightarrow> db \<times> reply" where
  "putJob e u i body d =
     (case latestJob i (userOrgId u) (jobs d) of
        None \<Rightarrow> (d, 404, Error ''Job not found'')
      | Some currentJob \<Rightarrow>
          (if bStatus body = Some InProgress \<and> status currentJob = Queued
           then (d, 400, Error ''Cannot move job from queue to in-progress. Queue jobs are processed automatically by the system.'')
           else
             (let plan = queuePlan e u body currentJob (jobs d);
                  js = fst plan
              in if needsNewVersion e body currentJob
                 then (let newJob = newVersionRow e u i body currentJob plan;
                           d1 = d\<lparr>jobs := js @ [newJob]\<rparr>
                       in if fitsColumns newJob
                          then (createActivity e (id_job newJob) ''Job Updated''
                                  (orElse (updated_by body) (userId u)) (userOrgId u) d1,
                                200, JobResponse newJob)
                          else (d\<lparr>jobs := js\<rparr>, 500, Error ''Failed to update job''))
                 else (let writtenRows = map (updateData e u body currentJob plan)
                                       (filter (isRow i (version currentJob) (userOrgId u)) js);
                           d1 = d\<lparr>jobs := map (\<lambda>r. if isRow i (version currentJob) (userOrgId u) r
                                                    then updateData e u body currentJob plan r
                                                    else r) js\<rparr>
                       in if list_all fitsColumns writtenRows
                          then (case find (isRow i (version currentJob) (userOrgId u)) (jobs d1) of
                                  None \<Rightarrow> (d1, 500, Error ''Failed to update job'')
                                | Some updatedJob \<Rightarrow>
                                    (createActivity e (id_job updatedJob) ''Job Updated''
                                       (orElse (updated_by body) (userId u)) (userOrgId u) d1,
                                     200, JobResponse updatedJob))
                          else (d\<lparr>jobs := js\<rparr>, 500, Error ''Failed to update job'')))))"
section \<open>The stores the operations reach\<close>



section \<open>Example rows\<close>

text \<open>Rows, stores and requests on which the theorems below are evaluated.\<close>

definition exampleJob ::
  "string \<Rightarrow> int \<Rightarrow> string \<Rightarrow> JobStatus \<Rightarrow> QueueType option \<Rightarrow> int \<Rightarrow> string option \<Rightarrow> int \<Rightarrow> job" where
  "exampleJob i v org st q pos ag t =
     \<lparr>id_job = i, version = v, orgId = org, generatedName = None, generatedDescription = None,
      status = st, priority = Medium, orderInQueue = pos, queueType = q, agentId = ag,
      createdAt = 0, updatedAt = t, createdBy = ''u1'', updatedBy = ''u1'',
      codeGenerationLogs = None, codeVerificationLogs = None, codeGenerationDetailLogs = None,
      userInput = None, repoId = None, userAcceptanceStatus = NotReviewed, userComments = None,
      confidenceScore = None, prLink = None, updates = None\<rparr>"

definition exampleAgent :: "string \<Rightarrow> string \<Rightarrow> AgentStatus \<Rightarrow> int \<Rightarrow> agent" where
  "exampleAgent i org st fails =
     \<lparr>aId = i, aName = ''host1'', aOrgId = org, aStatus = st, ip = Some ''10.0.0.1'',
      host = Some ''host1'', port = 50051, lastActive = None, consecutiveFailures = fails,
      registeredAt = None, lastStreamConnectedAt = None, aCreatedAt = 0, aUpdatedAt = 0\<rparr>"

definition emptyDb :: db where
  "emptyDb = \<lparr>jobs = [], agents = [], queueStates = [], apiKeys = [], activities = [],
              sent = [], schedules = [], console = []\<rparr>"

definition threeQueued :: db where
  "threeQueued = emptyDb
     \<lparr>jobs := [exampleJob ''j1'' 1 ''o1'' Queued (Some Backlog) 0 None 0,
               exampleJob ''j2'' 1 ''o1'' Queued (Some Rework) 1 None 0,
               exampleJob ''j3'' 1 ''o1'' Queued (Some Rework) 0 None 0],
      agents := [exampleAgent ''a1'' ''o1'' Active 0],
      queueStates := [\<lparr>qsOrgId = ''o1'', qsQueueType = Rework, isPaused = False\<rparr>]\<rparr>"

definition keyedStore :: db where
  "keyedStore = emptyDb
     \<lparr>agents := [exampleAgent ''a1'' ''o1'' Offline 3],
      apiKeys := [\<lparr>keyHash = ''h(k1)'', keyOrgId = ''o1''\<rparr>]\<rparr>"

definition exampleHash :: "string \<Rightarrow> string" where
  "exampleHash s = ''h('' @ s @ '')''"

definition oneActiveAgent :: db where
  "oneActiveAgent = emptyDb\<lparr>agents := [exampleAgent ''a1'' ''o1'' Active 0]\<rparr>"

definition foreignInProgress :: db where
  "foreignInProgress = emptyDb
     \<lparr>jobs := [exampleJob ''j1'' 1 ''o2'' InProgress None (- 1) (Some ''a1'') 900000,
               exampleJob ''j2'' 1 ''o1'' Queued (Some Backlog) 0 None 0],
      agents := [exampleAgent ''a1'' ''o1'' Active 2]\<rparr>"

definition exampleEnv :: "int \<Rightarrow> string \<Rightarrow> env" where
  "exampleEnv t u =
     \<lparr>envNow = t, envTimestamp = ''1/1/2026, 10:00:00 AM'', jobUuid = u,
      activityUuid = ''act-'' @ u, activityInsertThrows = False,
      generateJobTitleAndDescription = (\<lambda>p. (''title'', ''description'')),
      jsonEqual = (\<lambda>ui cur. cur = Some ui)\<rparr>"

definition exampleUser :: user where
  "exampleUser = \<lparr>userId = ''u1'', userOrgId = ''o1''\<rparr>"

definition exampleCreate :: CreateJobRequest where
  "exampleCreate =
     \<lparr>cUserInput = Some \<lparr>source = Slack, prompt = ''fix the build'', sourceMetadata = None\<rparr>,
      cRepo = None, created_by = ''u1''\<rparr>"

text \<open>A request body that sets nothing.\<close>

definition emptyUpdate :: UpdateJobRequest where
  "emptyUpdate =
     \<lparr>generated_name = None, generated_description = None, bStatus = None, bPriority = None,
      order_in_queue = None, user_input = None, repo = None, updated_by = ''u1'',
      user_comments = None, user_acceptance_status = None, queue_type = None\<rparr>"

text \<open>Two jobs created one after the other in an empty store.\<close>

definition twoJobs :: db where
  "twoJobs =
     fst (postJob (exampleEnv 2 ''b'') exampleUser exampleCreate
       (fst (postJob (exampleEnv 1 ''a'') exampleUser exampleCreate emptyDb)))"

text \<open>The two jobs after the first one was archived.\<close>

definition afterArchive :: db where
  "afterArchive = fst (deleteJob (exampleEnv 3 ''c'') exampleUser ''job-a'' twoJobs)"

text \<open>
  A store for the retry requests: job \<open>j1\<close> waits in the backlog, \<open>j4\<close> has failed, and
  the rework queue of the org holds \<open>j2\<close> and \<open>j3\<close>.
\<close>

definition retryStore :: db where
  "retryStore = emptyDb
     \<lparr>jobs := [(exampleJob ''j1'' 1 ''o1'' Queued (Some Backlog) 0 None 0)
                 \<lparr>updates := Some ''Job queued.''\<rparr>,
               exampleJob ''j2'' 1 ''o1'' Queued (Some Rework) 0 None 0,
               exampleJob ''j3'' 1 ''o1'' Queued (Some Rework) 1 None 0,
               exampleJob ''j4'' 1 ''o1'' Failed None (- 1) None 0]\<rparr>"

definition retryBody :: "string \<Rightarrow> int option \<Rightarrow> UpdateJobRequest" where
  "retryBody text pos =
     emptyUpdate
       \<lparr>bStatus := Some Queued, queue_type := Some Rework, order_in_queue := pos,
        user_comments := Some [\<lparr>file_name = ''a.ts'', line_no = 1, comment_prompt = text\<rparr>]\<rparr>"

text \<open>
  Two jobs and the active agent \<open>a1\<close> of their org. A PUT marks \<open>job-a\<close> failed; a PUT
  sets it to in-progress (both in place, on version 1); a PUT with a new prompt and
  \<open>status = completed\<close> then writes version 2, and version 1 stays in progress.
\<close>

definition newPrompt :: UserInput where
  "newPrompt = \<lparr>source = Slack, prompt = ''fix the tests'', sourceMetadata = None\<rparr>"

definition startedByHand :: db where
  "startedByHand =
     fst (putJob (exampleEnv 20 ''d'') exampleUser ''job-a''
            (emptyUpdate\<lparr>bStatus := Some InProgress\<rparr>)
            (fst (putJob (exampleEnv 10 ''c'') exampleUser ''job-a''
                    (emptyUpdate\<lparr>bStatus := Some Failed\<rparr>)
                    (twoJobs\<lparr>agents := [exampleAgent ''a1'' ''o1'' Active 0]\<rparr>))))"

definition revisedWhileRunning :: db where
  "revisedWhileRunning =
     fst (putJob (exampleEnv 30 ''e'') exampleUser ''job-a''
            (emptyUpdate\<lparr>bStatus := Some Completed, user_input := Some newPrompt\<rparr>)
            startedByHand)"

text \<open>
  One job and the active agent \<open>a1\<close> of its org. A PUT marks the job failed (in place);
  a PUT with a new prompt and \<open>status = in-progress\<close> writes version 2, in progress, and
  leaves version 1 failed.
\<close>

definition restartedAfterFailure :: db where
  "restartedAfterFailure =
     fst (putJob (exampleEnv 20 ''d'') exampleUser ''job-a''
            (emptyUpdate\<lparr>bStatus := Some InProgress, user_input := Some newPrompt\<rparr>)
            (fst (putJob (exampleEnv 10 ''c'') exampleUser ''job-a''
                    (emptyUpdate\<lparr>bStatus := Some Failed\<rparr>)
                    (fst (postJob (exampleEnv 1 ''a'') exampleUser exampleCreate
                            oneActiveAgent)))))"


section \<open>Preprocess: orphan reconciliation\<close>

lemmas job_defs = postJob_def deleteJob_def getNextQueuePosition_def getQueueJobs_def inQueue_def
  latestJob_def isRow_def archiveRow_def createActivity_def insertActivity_def orElse_def

lemmas put_defs = putJob_def queuePlan_def requeue_def backToBacklog_def askRework_def
  leaveForReview_def needsNewVersion_def isRetry_def moreComments_def commentCount_def
  promptChanged_def newVersionRow_def updateData_def setRest_def setStatus_def setNames_def
  updateMessage_def orCurrent_def trim_def isSpace_def statusText_def
  reprioritizeQueueAfterRemoval_def fitsColumns_def int32_def varchar_def textOk_def
  logsOk_def userInputOk_def commentsOk_def

lemmas pre_defs = preprocessActivity_def reconcileOrphans_def isOrphan_def schemaTable_def
  heartbeat_def touchAgent_def resetJob_def resetRow_def


lemmas ex_defs = threeQueued_def revisedWhileRunning_def startedByHand_def
  restartedAfterFailure_def newPrompt_def foreignInProgress_def oneActiveAgent_def
  retryStore_def keyedStore_def emptyDb_def
  exampleJob_def exampleAgent_def exampleHash_def exampleEnv_def exampleUser_def
  exampleCreate_def emptyUpdate_def retryBody_def twoJobs_def afterArchive_def

lemma resetRow_simps [simp]: "id_job (resetRow now j) = id_job j" "resetRow now (resetRow now j) = resetRow now j"
    "status (resetRow now j) = Queued" "agentId (resetRow now j) = None"
    "queueType (resetRow now j) = queueType j" "orderInQueue (resetRow now j) = orderInQueue j"
  by (simp_all add: resetRow_def)

lemma resetOrphans_map:
  "resetOrphans now os js =
     map (\<lambda>j. if id_job j \<in> id_job ` set os then resetRow now j else j) js"
proof (induction os arbitrary: js)
  case Nil
  then show ?case by simp
next
  case (Cons x os)
  have "resetOrphans now (x # os) js = resetOrphans now os (resetJob now (id_job x) js)" by simp
  also have "\<dots> = map (\<lambda>j. if id_job j \<in> id_job ` set os then resetRow now j else j)
                     (map (\<lambda>j. if id_job j = id_job x then resetRow now j else j) js)"
    unfolding Cons.IH resetJob_def ..
  also have "\<dots> = map (\<lambda>j. if id_job j \<in> id_job ` set (x # os) then resetRow now j else j) js"
    unfolding map_map by (rule map_cong[OF refl]) simp
  finally show ?case .
qed

lemma reconcileOrphans_orphan:
  assumes "j \<in> set js" and "isOrphan now org agent j"
  shows "resetRow now j \<in> set (reconcileOrphans now org agent js)"
proof -
  have "id_job j \<in> id_job ` set (filter (isOrphan now org agent) js)" using assms by simp
  then have "resetRow now j = (\<lambda>j. if id_job j \<in> id_job ` set (filter (isOrphan now org agent) js)
                  then resetRow now j else j) j" by simp
  then show ?thesis unfolding reconcileOrphans_def resetOrphans_map set_map
    using assms(1) by (rule image_eqI)
qed

lemma reconcileOrphans_nth:
  assumes "n < length js"
  shows "reconcileOrphans now org agent js ! n =
     (if id_job (js ! n) \<in> id_job ` {j \<in> set js. isOrphan now org agent j}
      then resetRow now (js ! n) else js ! n)"
  using assms unfolding reconcileOrphans_def resetOrphans_map by simp

lemma reconcileOrphans_length: "length (reconcileOrphans now org agent js) = length js"
  unfolding reconcileOrphans_def resetOrphans_map by simp


text \<open>
  C3. Orphan reconciliation is claimed to leave every job that does not match the orphan
  condition unmodified. The update filters on the job id alone. Here version 1 of
  \<open>job-a\<close> was set to in-progress by a PUT and version 2, the latest, is completed and
  does not match; five minutes later the step for agent \<open>a1\<close> finds version 1 (it is in
  progress and stale) and rewrites both rows, so the completed version is queued again.
\<close>

theorem orphan_reset_rewrites_other_version:
  "map (\<lambda>t. (id_job t, version t, status t, agentId t, updatedAt t)) (jobs revisedWhileRunning) =
     [(''job-a'', 1, InProgress, None, 20), (''job-b'', 1, Queued, None, 2),
      (''job-a'', 2, Completed, None, 30)] \<and>
   map (isOrphan 1000000 ''o1'' ''a1'') (jobs revisedWhileRunning) = [True, False, False] \<and>
   map (\<lambda>t. (id_job t, version t, status t, agentId t, updatedAt t))
     (reconcileOrphans 1000000 ''o1'' ''a1'' (jobs revisedWhileRunning)) =
     [(''job-a'', 1, Queued, None, 1000000), (''job-b'', 1, Queued, None, 2),
      (''job-a'', 2, Queued, None, 1000000)]"
  by (simp add: ex_defs job_defs put_defs pre_defs Let_def)

section \<open>Preprocess: queue selection\<close>

lemma schemaTable_queueStatus [simp]: "schemaTable ''queueStatus'' d = None"
  by (simp add: schemaTable_def)

lemma selectQueue_throws: "selectQueue now agent org (q # qs) d = (d, Inl TypeError)"
  by simp


text \<open>
  C2. For an active agent that owns no in-progress job, Preprocess is claimed to serve
  the first queue, in the order rework, backlog, that is not paused and not empty, and
  to claim its first job. The pause lookup of the first iteration reads a table name
  the schema does not export and throws: with agent \<open>a1\<close> active, the rework queue of its
  org not paused and holding \<open>j3\<close> at position 0 and \<open>j2\<close> at position 1, Preprocess ends
  with a \<open>TypeError\<close> and every row is still queued and unassigned.
\<close>

theorem preprocess_throws_before_selection:
  "map (\<lambda>a. (aId a, aOrgId a, aStatus a)) (agents threeQueued) = [(''a1'', ''o1'', Active)] \<and>
   map (\<lambda>s. (qsOrgId s, qsQueueType s, isPaused s)) (queueStates threeQueued) =
     [(''o1'', Rework, False)] \<and>
   map (\<lambda>j. (id_job j, orgId j, status j, queueType j, orderInQueue j, agentId j))
     (jobs threeQueued) =
     [(''j1'', ''o1'', Queued, Some Backlog, 0, None),
      (''j2'', ''o1'', Queued, Some Rework, 1, None),
      (''j3'', ''o1'', Queued, Some Rework, 0, None)] \<and>
   preprocessActivity 1000000 [] ''a1'' threeQueued = (threeQueued, Inl TypeError)"
  by (simp add: preprocessActivity_def reconcileOrphans_def isOrphan_def Let_def ex_defs)

text \<open>
  C9. The mutations that write no new version are claimed to touch the latest version row
  only. The update of the orphan reset filters on the job id alone: \<open>job-a\<close> failed as
  version 1 and was started again, with a new prompt, as version 2; five minutes later
  Preprocess finds version 2 in progress and stale, and the reset rewrites \<open>status\<close> and
  \<open>updatedAt\<close> of version 1 as well. (The run then ends in the \<open>TypeError\<close> of the pause
  lookup; the rows written before it stay.)
\<close>

theorem orphan_reset_rewrites_earlier_version:
  "map (\<lambda>t. (id_job t, version t, status t, updatedAt t)) (jobs restartedAfterFailure) =
     [(''job-a'', 1, Failed, 10), (''job-a'', 2, InProgress, 20)] \<and>
   map (\<lambda>t. (id_job t, version t, status t, updatedAt t))
     (jobs (fst (preprocessActivity 1000000 [] ''a1'' restartedAfterFailure))) =
     [(''job-a'', 1, Queued, 1000000), (''job-a'', 2, Queued, 1000000)] \<and>
   snd (preprocessActivity 1000000 [] ''a1'' restartedAfterFailure) = Inl TypeError"
  by (simp add: ex_defs job_defs put_defs pre_defs Let_def)

section \<open>Agent registration\<close>

lemma tryStartSchedules_agents [simp]: "agents (tryStartSchedules S w i d) = agents d"
  by (simp add: tryStartSchedules_def split: option.splits)






section \<open>Ping\<close>

lemma ping_failure_offline:
  assumes "find (\<lambda>a. aId a = agent) (agents d) = Some a" and "outcome \<noteq> Answered True"
  shows "agents (fst (pingAgentViaStream outcome now agent d)) =
           map (\<lambda>x. if aId x = agent
                     then x\<lparr>aStatus := Offline,
                            consecutiveFailures := consecutiveFailures a + 1,
                            aUpdatedAt := now\<rparr>
                     else x) (agents d)"
  using assms by (simp add: pingAgentViaStream_def)

text \<open>
  C5. An active agent is claimed to stay active after a single failed ping and to go
  offline when the counter reaches 3. \<open>pingAgentViaStream\<close> writes \<open>status = offline\<close>
  together with the incremented counter on every failed ping: an active agent with no
  failures is offline after one.
\<close>

theorem ping_failure_marks_offline:
  "pingAgentViaStream Threw 1000 ''a1'' oneActiveAgent =
     (oneActiveAgent\<lparr>agents := [(exampleAgent ''a1'' ''o1'' Offline 1)\<lparr>aUpdatedAt := 1000\<rparr>]\<rparr>,
      False, Some connectionError)"
  by (simp add: pingAgentViaStream_def ex_defs)

section \<open>Job routes: queue positions and dispatch\<close>

text \<open>
  C1. The positions of the queued rows of a queue are claimed to be exactly
  \<open>0, ..., n-1\<close> after every public operation. Archiving (DELETE) changes the status of
  a queued row and leaves the rows behind it where they were: with two jobs in the
  backlog at positions 0 and 1, archiving the first leaves one queued row, at position 1.
  The execute route, which takes a job out of its queue too, does close the gap.
\<close>

theorem archive_leaves_gap:
  "map (\<lambda>j. (id_job j, status j, orderInQueue j)) (getQueueJobs ''o1'' Backlog (jobs twoJobs)) =
     [(''job-a'', Queued, 0), (''job-b'', Queued, 1)] \<and>
   snd (deleteJob (exampleEnv 3 ''c'') exampleUser ''job-a'' twoJobs) =
     (200, JobResponse (archiveRow 3 ''u1'' (hd (jobs twoJobs)))) \<and>
   map (\<lambda>j. (id_job j, status j, orderInQueue j))
     (getQueueJobs ''o1'' Backlog
        (jobs (fst (deleteJob (exampleEnv 3 ''c'') exampleUser ''job-a'' twoJobs)))) =
     [(''job-b'', Queued, 1)] \<and>
   map (\<lambda>j. (id_job j, status j, orderInQueue j))
     (getQueueJobs ''o1'' Backlog
        (jobs (fst (executeJob (exampleEnv 3 ''c'') (\<lambda>i. False) (\<lambda>i org. Some ''wf'') exampleUser
                      ''job-a'' twoJobs)))) =
     [(''job-b'', Queued, 0)]"
  by (simp add: ex_defs job_defs executeJob_def removeJobFromQueue_def
      reprioritizeQueueAfterRemoval_def Let_def)

section \<open>Job routes: retry\<close>

lemma inQueue_reprioritize:
  "filter (inQueue org q) (reprioritizeQueueAfterRemoval now org' q' pos js) =
   map (\<lambda>j. if inQueue org' (Some q') j \<and> orderInQueue j > pos
             then j\<lparr>orderInQueue := orderInQueue j - 1, updatedAt := now\<rparr> else j)
     (filter (inQueue org q) js)"
  unfolding reprioritizeQueueAfterRemoval_def filter_map
  by (rule arg_cong[where f="map _"], rule filter_cong[OF refl]) (simp add: inQueue_def)

lemma getNextQueuePosition_alt:
  "getNextQueuePosition org q js = int (length (filter (inQueue org (Some q)) js))"
  by (simp add: getNextQueuePosition_def getQueueJobs_def)

lemma getNextQueuePosition_reprioritize [simp]:
  "getNextQueuePosition org q (reprioritizeQueueAfterRemoval now org' q' pos js) =
   getNextQueuePosition org q js"
  by (simp add: getNextQueuePosition_alt inQueue_reprioritize)





section \<open>Job routes: reprioritize\<close>

lemma createActivity_jobs [simp]: "jobs (createActivity e j n uid org d) = jobs d"
  by (simp add: createActivity_def insertActivity_def)

lemma masked_write [simp]:
  "masked (t\<lparr>orderInQueue := a, updatedAt := b, updatedBy := c\<rparr>) = masked t"
  "masked (t\<lparr>orderInQueue := a, updatedAt := b\<rparr>) = masked t"
  by (simp_all add: masked_def)

lemma masked_fields:
  assumes "masked t' = masked t"
  shows "jobKey t' = jobKey t" "orgId t' = orgId t" "status t' = status t"
    "queueType t' = queueType t"
proof -
  have "jobKey (masked t') = jobKey (masked t)" "orgId (masked t') = orgId (masked t)"
    "status (masked t') = status (masked t)" "queueType (masked t') = queueType (masked t)"
    using assms by simp_all
  then show "jobKey t' = jobKey t" "orgId t' = orgId t" "status t' = status t"
    "queueType t' = queueType t"
    by (simp_all add: masked_def jobKey_def)
qed

lemma masked_inQueue: "masked t' = masked t \<Longrightarrow> inQueue org q t' = inQueue org q t"
  using masked_fields[of t' t] by (simp add: inQueue_def)

lemma masked_isRow: "masked t' = masked t \<Longrightarrow> isRow i v org t' = isRow i v org t"
  using masked_fields[of t' t] by (simp add: isRow_def jobKey_def)

lemma isRow_key: "isRow i v org t \<longleftrightarrow> jobKey t = (i, v) \<and> orgId t = org"
  by (auto simp: isRow_def jobKey_def)

lemma key_unique:
  assumes "distinct (map jobKey js)" "a \<in> set js" "b \<in> set js" "jobKey a = jobKey b"
  shows "a = b"
  using assms by (meson distinct_map inj_on_eq_iff)

lemma list_all2_map_self: "list_all2 P xs (map f xs) \<longleftrightarrow> (\<forall>x\<in>set xs. P x (f x))"
  by (induction xs) auto

lemma list_all2_self: "list_all2 P xs xs \<longleftrightarrow> (\<forall>x\<in>set xs. P x x)"
  by (induction xs) auto

lemma writePosition_rel:
  assumes q: "q \<in> set js" and org: "orgId q = userOrgId u" and pk: "distinct (map jobKey js)"
  shows "list_all2 (\<lambda>t t'. masked t' = masked t \<and>
                           (jobKey t = jobKey q \<longrightarrow> orderInQueue t' = int index) \<and>
                           (jobKey t \<noteq> jobKey q \<longrightarrow> t' = t))
           js (writePosition now u i v q index js)"
proof -
  have same: "t = q" if "t \<in> set js" "jobKey t = jobKey q" for t
    using key_unique[OF pk that(1) q that(2)] .
  have row: "isRow (id_job q) (version q) (userOrgId u) t \<longleftrightarrow> jobKey t = jobKey q"
    if "t \<in> set js" for t
    using same[OF that] org by (auto simp: isRow_key jobKey_def)
  show ?thesis
  proof (cases "id_job q = i \<and> version q = v")
    case True
    then have w: "writePosition now u i v q index js =
        map (\<lambda>r. if isRow (id_job q) (version q) (userOrgId u) r
                  then r\<lparr>orderInQueue := int index, updatedAt := now, updatedBy := userId u\<rparr>
                  else r) js"
      by (simp add: writePosition_def)
    show ?thesis unfolding w list_all2_map_self using row by simp
  next
    case False
    show ?thesis
    proof (cases "orderInQueue q \<noteq> int index")
      case True
      with False have w: "writePosition now u i v q index js =
          map (\<lambda>r. if isRow (id_job q) (version q) (userOrgId u) r
                    then r\<lparr>orderInQueue := int index, updatedAt := now\<rparr>
                    else r) js"
        by (auto simp add: writePosition_def)
      show ?thesis unfolding w list_all2_map_self using row by simp
    next
      case f: False
      with False have w: "writePosition now u i v q index js = js"
        by (auto simp add: writePosition_def)
      show ?thesis unfolding w list_all2_self using same f by auto
    qed
  qed
qed

lemma list_all2_masked_keys:
  assumes "list_all2 (\<lambda>t t'. masked t' = masked t \<and> P t t') js js'"
  shows "map masked js' = map masked js"
  using assms by (induction rule: list_all2_induct) auto

lemma map_masked_keys: "map masked js' = map masked js \<Longrightarrow> map jobKey js' = map jobKey js"
proof -
  assume a: "map masked js' = map masked js"
  have "map jobKey js' = map (jobKey \<circ> masked) js'" by (simp add: masked_def jobKey_def)
  also have "\<dots> = map jobKey (map masked js')" by simp
  also have "\<dots> = map jobKey (map masked js)" by (simp only: a)
  also have "\<dots> = map jobKey js" by (simp add: masked_def jobKey_def)
  finally show ?thesis .
qed

lemma writePositions_rel:
  assumes "distinct (map jobKey rs)"
    and "\<forall>q\<in>set rs. q \<in> set js \<and> orgId q = userOrgId u"
    and "distinct (map jobKey js)"
  shows "list_all2 (written rs index) js (writePositions now u i v rs index js)"
  using assms
proof (induction rs arbitrary: index js)
  case Nil
  show ?case by (simp add: list_all2_self written_def)
next
  case (Cons q rest)
  let ?js1 = "writePosition now u i v q index js"
  let ?R1 = "\<lambda>t t'. masked t' = masked t \<and>
                (jobKey t = jobKey q \<longrightarrow> orderInQueue t' = int index) \<and>
                (jobKey t \<noteq> jobKey q \<longrightarrow> t' = t)"
  from Cons.prems have q: "q \<in> set js" and org: "orgId q = userOrgId u" by simp_all
  have r1: "list_all2 ?R1 js ?js1" by (rule writePosition_rel[OF q org Cons.prems(3)])
  have keys1: "map jobKey ?js1 = map jobKey js"
    by (rule map_masked_keys, rule list_all2_masked_keys, rule r1)
  have d1: "distinct (map jobKey ?js1)" using Cons.prems(3) by (simp add: keys1)
  from Cons.prems(1) have qrest: "jobKey q \<notin> jobKey ` set rest" and drest: "distinct (map jobKey rest)"
    by simp_all
  have in1: "\<forall>q'\<in>set rest. q' \<in> set ?js1 \<and> orgId q' = userOrgId u"
  proof
    fix q' assume q': "q' \<in> set rest"
    with Cons.prems(2) have a: "q' \<in> set js" and b: "orgId q' = userOrgId u" by simp_all
    from q' qrest have ne: "jobKey q' \<noteq> jobKey q" by (metis imageI)
    from a obtain n where n: "n < length js" "js ! n = q'" by (auto simp: in_set_conv_nth)
    from r1 n have "?R1 q' (?js1 ! n)" by (auto simp: list_all2_conv_all_nth)
    with ne have "?js1 ! n = q'" by simp
    moreover from r1 n have "n < length ?js1" by (auto simp: list_all2_conv_all_nth)
    ultimately have "q' \<in> set ?js1" by (metis nth_mem)
    with b show "q' \<in> set ?js1 \<and> orgId q' = userOrgId u" by simp
  qed
  have ih: "list_all2 (written rest (Suc index)) ?js1 (writePositions now u i v rest (Suc index) ?js1)"
    by (rule Cons.IH[OF drest in1 d1])
  have comp: "written (q # rest) index a c" if ab: "?R1 a b" and bc: "written rest (Suc index) b c" for a b c
  proof -
    from ab have mab: "masked b = masked a" by simp
    from bc have mbc: "masked c = masked b" by (simp add: written_def)
    have kb: "jobKey b = jobKey a" using masked_fields(1)[OF mab] .
    have m: "masked c = masked a" using mab mbc by simp
    have pos: "orderInQueue c = int (index + k)"
      if k: "k < length (q # rest)" "jobKey ((q # rest) ! k) = jobKey a" for k
    proof (cases k)
      case 0
      with k have ka: "jobKey a = jobKey q" by simp
      with ab have ob: "orderInQueue b = int index" by simp
      from ka kb qrest have "jobKey b \<notin> jobKey ` set rest" by simp
      with bc have "c = b" by (simp add: written_def)
      with ob 0 show ?thesis by simp
    next
      case (Suc k')
      with k have k': "k' < length rest" "jobKey (rest ! k') = jobKey a" by simp_all
      then have "jobKey a \<in> jobKey ` set rest" by (metis imageI nth_mem)
      with qrest have "jobKey a \<noteq> jobKey q" by auto
      with ab have "b = a" by simp
      with bc k' have "orderInQueue c = int (Suc index + k')" by (simp add: written_def)
      with Suc show ?thesis by simp
    qed
    have out: "c = a" if "jobKey a \<notin> jobKey ` set (q # rest)"
    proof -
      from that have "jobKey a \<noteq> jobKey q" "jobKey a \<notin> jobKey ` set rest" by auto
      with ab bc kb show ?thesis by (simp add: written_def)
    qed
    from m pos out show ?thesis unfolding written_def by blast
  qed
  have "list_all2 (written (q # rest) index) js (writePositions now u i v rest (Suc index) ?js1)"
    using comp r1 ih by (rule list_all2_trans)
  then show ?case by simp
qed

lemma latestJob_SomeD:
  assumes "latestJob i org js = Some j"
  shows "j \<in> set js \<and> id_job j = i \<and> orgId j = org"
proof -
  let ?xs = "sort_key (\<lambda>j. - version j) (filter (\<lambda>j. id_job j = i \<and> orgId j = org) js)"
  from assms obtain rest where "?xs = j # rest"
    by (auto simp: latestJob_def split: list.splits)
  then have "j \<in> set ?xs" by simp
  then show ?thesis by simp
qed

lemma filter_key_single:
  "distinct (map f xs) \<Longrightarrow> x \<in> set xs \<Longrightarrow> filter (\<lambda>r. f r = f x) xs = [x]"
proof (induction xs)
  case Nil
  then show ?case by simp
next
  case (Cons a xs)
  show ?case
  proof (cases "a = x")
    case True
    with Cons.prems have "f x \<notin> f ` set xs" by simp
    then have "\<forall>r\<in>set xs. f r \<noteq> f x" by (metis imageI)
    then have "filter (\<lambda>r. f r = f x) xs = []" by (simp add: filter_empty_conv)
    with True show ?thesis by simp
  next
    case False
    with Cons.prems have x: "x \<in> set xs" by simp
    with Cons.prems have "f a \<noteq> f x" by auto
    with Cons.IH Cons.prems x show ?thesis by simp
  qed
qed

lemma mset_remove_key:
  assumes "distinct (map f xs)" "x \<in> set xs"
  shows "mset (x # filter (\<lambda>r. f r \<noteq> f x) xs) = mset xs"
proof -
  have "mset xs = mset (filter (\<lambda>r. f r = f x) xs) + mset (filter (\<lambda>r. f r \<noteq> f x) xs)"
    by (induction xs) auto
  also have "filter (\<lambda>r. f r = f x) xs = [x]" by (rule filter_key_single[OF assms])
  finally show ?thesis by simp
qed

lemma mset_spliceAt: "mset (spliceAt m x xs) = mset (x # xs)"
proof -
  have "mset (take m xs @ drop m xs) = mset xs" by simp
  then have "mset (take m xs) + mset (drop m xs) = mset xs" by (simp only: mset_append)
  then show ?thesis by (simp add: spliceAt_def)
qed

lemma spliceAt_nth: "spliceAt m x xs ! min m (length xs) = x"
  by (simp add: spliceAt_def nth_append min_def)

lemma list_all2_filter:
  assumes "list_all2 R xs ys" and "\<And>x y. R x y \<Longrightarrow> P x = P y"
  shows "list_all2 R (filter P xs) (filter P ys)"
  using assms by (induction rule: list_all2_induct) auto

lemma sorted_positions:
  assumes len: "length ps = n" and dist: "distinct ps" and range: "set ps \<subseteq> int ` {0..<n}"
  shows "sort ps = map int [0..<n]"
proof -
  have "card (set ps) = n" using len dist by (simp add: distinct_card)
  moreover have "card (int ` {0..<n}) = n" by (simp add: card_image)
  ultimately have "set ps = int ` {0..<n}"
    using range by (metis card_subset_eq finite_atLeastLessThan finite_imageI)
  then have s: "set (sort ps) = set (map int [0..<n])" by simp
  have a: "sorted (map int [0..<n])" by (simp add: sorted_map strict_sorted_iff[symmetric])
  have b: "distinct (map int [0..<n])" by (simp add: distinct_map)
  show ?thesis
    by (rule sorted_distinct_set_unique) (use s a b dist in simp_all)
qed

lemma map_sort_key: "map f (sort_key f xs) = sort (map f xs)"
  by (rule properties_for_sort[symmetric]) (simp_all add: sorted_sort_key)

lemma written_masked: "list_all2 (written rs index) xs ys \<Longrightarrow> map masked ys = map masked xs"
proof -
  assume "list_all2 (written rs index) xs ys"
  then have "list_all2 (\<lambda>t t'. masked t' = masked t \<and> True) xs ys"
    by (rule list_all2_mono) (simp add: written_def)
  then show ?thesis by (rule list_all2_masked_keys)
qed

lemma written_positions:
  assumes rel: "list_all2 (written rs 0) Q Q'"
    and srs: "set Q \<subseteq> set rs"
    and dQ: "distinct Q"
    and lrs: "length rs = length Q"
  shows "map orderInQueue (sort_key orderInQueue Q') = map int [0..<length Q]"
proof -
  define n where "n = length Q"
  have lenQ: "length Q' = n" using rel n_def by (simp add: list_all2_lengthD)
  have posQ: "\<exists>k<n. rs ! k = Q ! a \<and> orderInQueue (Q' ! a) = int k" if a: "a < n" for a
  proof -
    from a n_def have "Q ! a \<in> set Q" by simp
    with srs have "Q ! a \<in> set rs" by blast
    then obtain k where k: "k < length rs" "rs ! k = Q ! a" by (auto simp: in_set_conv_nth)
    from rel a n_def have "written rs 0 (Q ! a) (Q' ! a)" by (simp add: list_all2_conv_all_nth)
    with k have "orderInQueue (Q' ! a) = int k" by (simp add: written_def)
    with k lrs n_def show ?thesis by auto
  qed
  have dpos: "distinct (map orderInQueue Q')"
    unfolding distinct_conv_nth
  proof (intro allI impI)
    fix a b assume a: "a < length (map orderInQueue Q')" and b: "b < length (map orderInQueue Q')"
      and ab: "a \<noteq> b"
    from a b lenQ have an: "a < n" and bn: "b < n" by simp_all
    from posQ[OF an] obtain ka where ka: "rs ! ka = Q ! a" "orderInQueue (Q' ! a) = int ka" by blast
    from posQ[OF bn] obtain kb where kb: "rs ! kb = Q ! b" "orderInQueue (Q' ! b) = int kb" by blast
    show "map orderInQueue Q' ! a \<noteq> map orderInQueue Q' ! b"
    proof
      assume "map orderInQueue Q' ! a = map orderInQueue Q' ! b"
      with a b ka kb have "ka = kb" by simp
      with ka kb have "Q ! a = Q ! b" by simp
      with dQ an bn n_def have "a = b" by (simp add: nth_eq_iff_index_eq)
      with ab show False by simp
    qed
  qed
  have rpos: "set (map orderInQueue Q') \<subseteq> int ` {0..<n}"
  proof
    fix x assume "x \<in> set (map orderInQueue Q')"
    then obtain a where a: "a < length Q'" "x = orderInQueue (Q' ! a)"
      by (auto simp: in_set_conv_nth)
    with lenQ posQ[of a] show "x \<in> int ` {0..<n}" by auto
  qed
  have "sort (map orderInQueue Q') = map int [0..<n]"
    by (rule sorted_positions) (use lenQ dpos rpos in simp_all)
  then show ?thesis unfolding map_sort_key n_def .
qed


lemma written_target:
  assumes rel: "list_all2 (written rs 0) js js'"
    and k: "k < length rs" "rs ! k = j"
    and t: "t \<in> set js'" "jobKey t = jobKey j"
  shows "orderInQueue t = int k"
proof -
  from t obtain a where a: "a < length js'" "js' ! a = t" by (auto simp: in_set_conv_nth)
  from rel a have w: "written rs 0 (js ! a) t" by (auto simp: list_all2_conv_all_nth)
  then have "masked t = masked (js ! a)" by (simp add: written_def)
  from masked_fields(1)[OF this] t(2) have "jobKey (rs ! k) = jobKey (js ! a)" using k by simp
  with w k(1) show ?thesis by (simp add: written_def)
qed

lemma written_present:
  assumes rel: "list_all2 (written rs 0) js js'" and jin: "j \<in> set js"
  shows "\<exists>t\<in>set js'. masked t = masked j"
proof -
  from jin obtain a where a: "a < length js" "js ! a = j" by (auto simp: in_set_conv_nth)
  from rel a have w: "written rs 0 j (js' ! a)" and la: "a < length js'"
    by (auto simp: list_all2_conv_all_nth)
  then have "masked (js' ! a) = masked j" by (simp add: written_def)
  with la show ?thesis by (metis nth_mem)
qed

lemma reprioritize_moves:
  assumes pk: "distinct (map jobKey js)"
    and lat: "latestJob i org js = Some j"
    and org: "org = userOrgId u"
    and queued: "status j = Queued"
    and p: "0 \<le> p"
    and n: "n = length (filter (inQueue org (queueType j)) js)"
    and js': "js' = writePositions now u i (version j)
                (spliceAt (nat p) j
                   (filter (\<lambda>r. id_job r \<noteq> i \<or> version r \<noteq> version j)
                      (sort_key orderInQueue (filter (inQueue org (queueType j)) js)))) 0 js"
  shows "map masked js' = map masked js \<and>
         map jobKey (filter (inQueue org (queueType j)) js') =
           map jobKey (filter (inQueue org (queueType j)) js) \<and>
         map orderInQueue (sort_key orderInQueue (filter (inQueue org (queueType j)) js')) =
           map int [0..<n] \<and>
         (\<forall>t\<in>set js'. isRow i (version j) org t \<longrightarrow> orderInQueue t = min p (int n - 1)) \<and>
         (\<exists>t\<in>set js'. isRow i (version j) org t)"
proof -
  define Q where "Q = filter (inQueue org (queueType j)) js"
  define all where "all = sort_key orderInQueue Q"
  define other where "other = filter (\<lambda>r. id_job r \<noteq> i \<or> version r \<noteq> version j) all"
  define rs where "rs = spliceAt (nat p) j other"
  define Q' where "Q' = filter (inQueue org (queueType j)) js'"
  have js'rs: "js' = writePositions now u i (version j) rs 0 js"
    unfolding js' rs_def other_def all_def Q_def ..
  from latestJob_SomeD[OF lat] have jin: "j \<in> set js" and ji: "id_job j = i" and jo: "orgId j = org"
    by simp_all
  have jq: "inQueue org (queueType j) j" using jo queued by (simp add: inQueue_def)
  have jall: "j \<in> set all" unfolding all_def Q_def using jin jq by simp
  have dQ: "distinct (map jobKey Q)" unfolding Q_def using pk by (rule distinct_map_filter)
  have dall: "distinct (map jobKey all)"
  proof -
    have "mset (map jobKey all) = mset (map jobKey Q)" unfolding all_def by simp
    then show ?thesis using dQ by (metis mset_eq_imp_distinct_iff)
  qed
  have other: "other = filter (\<lambda>r. jobKey r \<noteq> jobKey j) all"
    unfolding other_def by (rule filter_cong[OF refl]) (auto simp: jobKey_def ji)
  have mrs: "mset rs = mset all"
    unfolding rs_def mset_spliceAt other by (rule mset_remove_key[OF dall jall])
  have mall: "mset all = mset Q" unfolding all_def by simp
  have srs: "set rs = set Q" using mrs mall by (metis mset_eq_setD)
  have lrs: "length rs = length Q" using mrs mall by (metis mset_eq_length)
  have nQ: "n = length Q" unfolding n Q_def ..
  have drs: "distinct (map jobKey rs)"
  proof -
    have "mset (map jobKey rs) = mset (map jobKey all)" using mrs by (metis mset_map)
    then show ?thesis using dall by (metis mset_eq_imp_distinct_iff)
  qed
  have lother: "Suc (length other) = n"
    using lrs nQ unfolding rs_def by (simp add: spliceAt_def)
  have inrs: "\<forall>q\<in>set rs. q \<in> set js \<and> orgId q = userOrgId u"
    unfolding srs Q_def using org by (auto simp: inQueue_def)
  have rel: "list_all2 (written rs 0) js js'"
    unfolding js'rs by (rule writePositions_rel[OF drs inrs pk])
  have m: "map masked js' = map masked js" using rel by (rule written_masked)
  have relQ: "list_all2 (written rs 0) Q Q'"
    unfolding Q_def Q'_def
  proof (rule list_all2_filter[OF rel])
    fix x y assume "written rs 0 x y"
    then have "masked y = masked x" by (simp add: written_def)
    then show "inQueue org (queueType j) x = inQueue org (queueType j) y"
      by (rule masked_inQueue[symmetric])
  qed
  have keysQ: "map jobKey Q' = map jobKey Q"
    by (rule map_masked_keys, rule written_masked, rule relQ)
  have distQ: "distinct Q" using dQ by (metis distinct_map)
  have sorted: "map orderInQueue (sort_key orderInQueue Q') = map int [0..<n]"
    unfolding nQ by (rule written_positions[OF relQ _ distQ lrs]) (simp add: srs)
  have jpos: "rs ! min (nat p) (length other) = j" unfolding rs_def by (rule spliceAt_nth)
  have kl: "min (nat p) (length other) < length rs" using lrs nQ lother by simp
  have kv: "int (min (nat p) (length other)) = min p (int n - 1)" using p lother by auto
  have target: "\<forall>t\<in>set js'. isRow i (version j) org t \<longrightarrow> orderInQueue t = min p (int n - 1)"
  proof (intro ballI impI)
    fix t assume t: "t \<in> set js'" "isRow i (version j) org t"
    then have "jobKey t = jobKey j" by (simp add: isRow_key jobKey_def ji)
    from written_target[OF rel kl jpos t(1) this] kv
    show "orderInQueue t = min p (int n - 1)" by simp
  qed
  have ex: "\<exists>t\<in>set js'. isRow i (version j) org t"
  proof -
    from written_present[OF rel jin] obtain t where t: "t \<in> set js'" "masked t = masked j" by blast
    from masked_isRow[OF t(2)] have "isRow i (version j) org t" using ji jo by (simp add: isRow_def)
    with t(1) show ?thesis by blast
  qed
  show ?thesis
    using m keysQ sorted target ex unfolding Q_def Q'_def by (intro conjI)
qed

text \<open>
  C7, amended. On the latest version of a job of the caller's org (the job table keyed by
  \<open>(id, version)\<close>): a request for a job that is not queued, or with a negative position,
  is answered 400 and writes nothing; a request for the position the job already has is
  answered 200 and writes nothing, whatever the positions are; any other request is
  answered 200 and permutes: no column but \<open>orderInQueue\<close>, \<open>updatedAt\<close>, \<open>updatedBy\<close>
  changes, the queued rows of the \<open>(org, queue)\<close> are the same rows, their positions are
  exactly \<open>0, ..., n-1\<close>, and the target row is at \<open>min position (n-1)\<close>.
\<close>

theorem reprioritize_permutes:
  assumes pk: "distinct (map jobKey (jobs d))"
    and lat: "latestJob i (userOrgId u) (jobs d) = Some j"
    and run: "reprioritizeJob e u i p d = (d', r)"
    and n: "n = length (filter (inQueue (userOrgId u) (queueType j)) (jobs d))"
  shows "(status j \<noteq> Queued \<or> p < 0 \<longrightarrow> d' = d \<and> fst r = 400) \<and>
         (status j = Queued \<and> 0 \<le> p \<and> p = orderInQueue j \<longrightarrow> d' = d \<and> fst r = 200) \<and>
         (status j = Queued \<and> 0 \<le> p \<and> p \<noteq> orderInQueue j \<longrightarrow>
            fst r = 200 \<and>
            map masked (jobs d') = map masked (jobs d) \<and>
            map jobKey (filter (inQueue (userOrgId u) (queueType j)) (jobs d')) =
              map jobKey (filter (inQueue (userOrgId u) (queueType j)) (jobs d)) \<and>
            map orderInQueue
              (sort_key orderInQueue (filter (inQueue (userOrgId u) (queueType j)) (jobs d'))) =
              map int [0..<n] \<and>
            (\<forall>t\<in>set (jobs d'). isRow i (version j) (userOrgId u) t \<longrightarrow>
               orderInQueue t = min p (int n - 1)))"
proof -
  have c1: "status j \<noteq> Queued \<or> p < 0 \<longrightarrow> d' = d \<and> fst r = 400"
  proof (rule impI)
  assume "status j \<noteq> Queued \<or> p < 0"
  then have "reprioritizeJob e u i p d =
      (d, 400, Error (if p < 0 then ''Position must be non-negative''
                      else ''Only queued jobs can be reprioritized''))"
    using lat by (auto simp: reprioritizeJob_def)
  with run show "d' = d \<and> fst r = 400" by auto
  qed
  have c2: "status j = Queued \<and> 0 \<le> p \<and> p = orderInQueue j \<longrightarrow> d' = d \<and> fst r = 200"
  proof (rule impI)
  assume "status j = Queued \<and> 0 \<le> p \<and> p = orderInQueue j"
  then have "reprioritizeJob e u i p d =
      (d, 200, Message ''Job is already at the requested position'' j)"
    using lat by (simp add: reprioritizeJob_def)
  with run show "d' = d \<and> fst r = 200" by auto
  qed
  have c3: "status j = Queued \<and> 0 \<le> p \<and> p \<noteq> orderInQueue j \<longrightarrow>
            fst r = 200 \<and>
            map masked (jobs d') = map masked (jobs d) \<and>
            map jobKey (filter (inQueue (userOrgId u) (queueType j)) (jobs d')) =
              map jobKey (filter (inQueue (userOrgId u) (queueType j)) (jobs d)) \<and>
            map orderInQueue
              (sort_key orderInQueue (filter (inQueue (userOrgId u) (queueType j)) (jobs d'))) =
              map int [0..<n] \<and>
            (\<forall>t\<in>set (jobs d'). isRow i (version j) (userOrgId u) t \<longrightarrow>
               orderInQueue t = min p (int n - 1))"
  proof (rule impI)
  assume a: "status j = Queued \<and> 0 \<le> p \<and> p \<noteq> orderInQueue j"
  define js' where "js' = writePositions (envNow e) u i (version j)
                (spliceAt (nat p) j
                   (filter (\<lambda>r. id_job r \<noteq> i \<or> version r \<noteq> version j)
                      (sort_key orderInQueue
                         (filter (inQueue (userOrgId u) (queueType j)) (jobs d))))) 0 (jobs d)"
  from a have q: "status j = Queued" and p: "0 \<le> p" and ne: "p \<noteq> orderInQueue j" by simp_all
  note mv = reprioritize_moves[OF pk lat refl q p n js'_def]
  from mv obtain t where t: "t \<in> set js'" "isRow i (version j) (userOrgId u) t" by blast
  then have "find (isRow i (version j) (userOrgId u)) js' \<noteq> None"
    by (auto simp: find_None_iff)
  then obtain uj where uj: "find (isRow i (version j) (userOrgId u)) js' = Some uj" by blast
  have "reprioritizeJob e u i p d =
          (createActivity e (id_job uj) ''Job Order Changed'' (userId u) (userOrgId u)
             (d\<lparr>jobs := js'\<rparr>),
           200, Message ''Job reprioritized'' uj)"
    using lat q p ne uj unfolding reprioritizeJob_def js'_def by (simp add: Let_def)
  with run have d': "jobs d' = js'" and r: "fst r = 200" by auto
  from mv show "fst r = 200 \<and>
            map masked (jobs d') = map masked (jobs d) \<and>
            map jobKey (filter (inQueue (userOrgId u) (queueType j)) (jobs d')) =
              map jobKey (filter (inQueue (userOrgId u) (queueType j)) (jobs d)) \<and>
            map orderInQueue
              (sort_key orderInQueue (filter (inQueue (userOrgId u) (queueType j)) (jobs d'))) =
              map int [0..<n] \<and>
            (\<forall>t\<in>set (jobs d'). isRow i (version j) (userOrgId u) t \<longrightarrow>
               orderInQueue t = min p (int n - 1))"
    unfolding d' using r by blast
  qed
  from c1 c2 c3 show ?thesis by (intro conjI)
qed

lemmas rep_defs = reprioritizeJob_def spliceAt_def writePosition_def

theorem reprioritize_permutes_witness:
  "distinct (map jobKey (jobs twoJobs)) \<and>
   latestJob ''job-b'' (userOrgId exampleUser) (jobs twoJobs) = Some (jobs twoJobs ! 1) \<and>
   status (jobs twoJobs ! 1) = Queued \<and> orderInQueue (jobs twoJobs ! 1) = 1 \<and>
   length (filter (inQueue (userOrgId exampleUser) (queueType (jobs twoJobs ! 1))) (jobs twoJobs)) = 2 \<and>
   fst (snd (reprioritizeJob (exampleEnv 4 ''d'') exampleUser ''job-b'' 0 twoJobs)) = 200 \<and>
   map orderInQueue
     (sort_key orderInQueue
        (filter (inQueue (userOrgId exampleUser) (queueType (jobs twoJobs ! 1)))
           (jobs (fst (reprioritizeJob (exampleEnv 4 ''d'') exampleUser ''job-b'' 0 twoJobs))))) =
     map int [0..<2] \<and>
   map (\<lambda>t. (id_job t, orderInQueue t))
     (jobs (fst (reprioritizeJob (exampleEnv 4 ''d'') exampleUser ''job-b'' 0 twoJobs))) =
     [(''job-a'', 1), (''job-b'', 0)]"
proof -
  let ?j = "jobs twoJobs ! 1"
  let ?run = "reprioritizeJob (exampleEnv 4 ''d'') exampleUser ''job-b'' 0 twoJobs"
  have a: "distinct (map jobKey (jobs twoJobs))"
    by (simp add: ex_defs job_defs jobKey_def Let_def)
  have b: "latestJob ''job-b'' (userOrgId exampleUser) (jobs twoJobs) = Some ?j"
    by (simp add: ex_defs job_defs Let_def)
  have c: "?run = (fst ?run, snd ?run)" by simp
  have s: "status ?j = Queued" by (simp add: ex_defs job_defs Let_def)
  have o: "orderInQueue ?j = 1" by (simp add: ex_defs job_defs Let_def)
  have n: "length (filter (inQueue (userOrgId exampleUser) (queueType ?j)) (jobs twoJobs)) = 2"
    by (simp add: ex_defs job_defs Let_def)
  note t = reprioritize_permutes[OF a b c n[symmetric]]
  from t s o have r: "fst (snd ?run) = 200"
    and q: "map orderInQueue
     (sort_key orderInQueue
        (filter (inQueue (userOrgId exampleUser) (queueType ?j)) (jobs (fst ?run)))) =
     map int [0..<2]"
    by simp_all
  have v: "map (\<lambda>t. (id_job t, orderInQueue t)) (jobs (fst ?run)) = [(''job-a'', 1), (''job-b'', 0)]"
    by (simp add: ex_defs job_defs rep_defs Let_def)
  from a b s o n r q v show ?thesis by (intro conjI)
qed

text \<open>
  C7 as stated fails where the queue has a gap: with \<open>job-a\<close> archived, \<open>job-b\<close> is the only
  queued row of the backlog and sits at position 1; a request for position 1 is a no-op,
  so afterwards the positions are \<open>{1}\<close>, not \<open>{0}\<close>, and the target is at 1, not at
  \<open>clamp(1, 0, 0) = 0\<close>. A negative position is rejected, not clamped to 0.
\<close>

theorem reprioritize_same_position_keeps_gap:
  "map (\<lambda>t. (id_job t, status t, queueType t, orderInQueue t)) (jobs afterArchive) =
     [(''job-a'', Archived, Some Backlog, 0), (''job-b'', Queued, Some Backlog, 1)] \<and>
   reprioritizeJob (exampleEnv 4 ''d'') exampleUser ''job-b'' 1 afterArchive =
     (afterArchive, 200, Message ''Job is already at the requested position''
                           (jobs afterArchive ! 1)) \<and>
   map orderInQueue (getQueueJobs ''o1'' Backlog (jobs afterArchive)) = [1] \<and>
   reprioritizeJob (exampleEnv 4 ''d'') exampleUser ''job-b'' (- 1) twoJobs =
     (twoJobs, 400, Error ''Position must be non-negative'')"
  by (simp add: ex_defs job_defs rep_defs Let_def)

section \<open>Job routes: the audit row\<close>

lemma createActivity_cases:
  "createActivity e j n uid org d =
     (if activityInsertThrows e
      then d\<lparr>console := console d @ [''Failed to create activity:'']\<rparr>
      else d\<lparr>activities := activities d @
              [\<lparr>actId = activityUuid e, actOrgId = org, actName = n, actJobId = j,
                actCreatedBy = uid\<rparr>]\<rparr>)"
  by (simp add: createActivity_def insertActivity_def)

lemma queuePlan_env [simp]: "queuePlan (e\<lparr>activityInsertThrows := b\<rparr>) = queuePlan e"
  by (simp add: fun_eq_iff queuePlan_def askRework_def backToBacklog_def leaveForReview_def cong: option.case_cong JobStatus.case_cong prod.case_cong if_cong)

lemma updateMessage_env [simp]: "updateMessage (e\<lparr>activityInsertThrows := b\<rparr>) = updateMessage e"
  by (simp add: fun_eq_iff updateMessage_def cong: option.case_cong JobStatus.case_cong prod.case_cong if_cong)

lemma needsNewVersion_env [simp]: "needsNewVersion (e\<lparr>activityInsertThrows := b\<rparr>) = needsNewVersion e"
  by (simp add: fun_eq_iff needsNewVersion_def cong: option.case_cong JobStatus.case_cong prod.case_cong if_cong)

lemma newVersionRow_env [simp]: "newVersionRow (e\<lparr>activityInsertThrows := b\<rparr>) = newVersionRow e"
  by (simp add: fun_eq_iff newVersionRow_def cong: option.case_cong JobStatus.case_cong prod.case_cong if_cong)

lemma setNames_env [simp]: "setNames (e\<lparr>activityInsertThrows := b\<rparr>) = setNames e"
  by (simp add: fun_eq_iff setNames_def cong: option.case_cong JobStatus.case_cong prod.case_cong if_cong)

lemma setStatus_env [simp]: "setStatus (e\<lparr>activityInsertThrows := b\<rparr>) = setStatus e"
  by (simp add: fun_eq_iff setStatus_def cong: option.case_cong JobStatus.case_cong prod.case_cong if_cong)

lemma updateData_env [simp]: "updateData (e\<lparr>activityInsertThrows := b\<rparr>) = updateData e"
  by (simp add: fun_eq_iff updateData_def cong: option.case_cong JobStatus.case_cong prod.case_cong if_cong)

lemma postJob_env:
  "jobs (fst (postJob e u body d)) = jobs (fst (postJob (e\<lparr>activityInsertThrows := False\<rparr>) u body d)) \<and>
   snd (postJob e u body d) = snd (postJob (e\<lparr>activityInsertThrows := False\<rparr>) u body d)"
  by (simp add: postJob_def Let_def split: option.splits prod.splits cong: if_cong option.case_cong)

lemma putJob_env:
  "jobs (fst (putJob e u i body d)) = jobs (fst (putJob (e\<lparr>activityInsertThrows := False\<rparr>) u i body d)) \<and>
   snd (putJob e u i body d) = snd (putJob (e\<lparr>activityInsertThrows := False\<rparr>) u i body d)"
  by (simp add: putJob_def Let_def split: option.splits cong: if_cong option.case_cong)

lemma deleteJob_env:
  "jobs (fst (deleteJob e u i d)) = jobs (fst (deleteJob (e\<lparr>activityInsertThrows := False\<rparr>) u i d)) \<and>
   snd (deleteJob e u i d) = snd (deleteJob (e\<lparr>activityInsertThrows := False\<rparr>) u i d)"
  by (simp add: deleteJob_def Let_def split: option.splits cong: if_cong option.case_cong)

lemma executeJob_env:
  "jobs (fst (executeJob e ie sj u i d)) = jobs (fst (executeJob (e\<lparr>activityInsertThrows := False\<rparr>) ie sj u i d)) \<and>
   snd (executeJob e ie sj u i d) = snd (executeJob (e\<lparr>activityInsertThrows := False\<rparr>) ie sj u i d)"
  by (simp add: executeJob_def Let_def split: option.splits cong: if_cong option.case_cong)

lemma reprioritizeJob_env:
  "jobs (fst (reprioritizeJob e u i p d)) = jobs (fst (reprioritizeJob (e\<lparr>activityInsertThrows := False\<rparr>) u i p d)) \<and>
   snd (reprioritizeJob e u i p d) = snd (reprioritizeJob (e\<lparr>activityInsertThrows := False\<rparr>) u i p d)"
  by (simp add: reprioritizeJob_def Let_def split: option.splits cong: if_cong option.case_cong)

text \<open>
  C10. In each of the five routes that write an audit row (create, update, archive,
  execute, reprioritize) the outcome does not depend on whether the insert into the
  activity table throws: the job table and the reply are those of the run in which the
  insert succeeds. \<open>createActivity\<close> itself only logs the failure.
\<close>

theorem activity_failure_is_only_logged:
  "createActivity e j n uid org d =
     (if activityInsertThrows e
      then d\<lparr>console := console d @ [''Failed to create activity:'']\<rparr>
      else d\<lparr>activities := activities d @
              [\<lparr>actId = activityUuid e, actOrgId = org, actName = n, actJobId = j,
                actCreatedBy = uid\<rparr>]\<rparr>) \<and>
   jobs (fst (postJob e u cbody d)) =
     jobs (fst (postJob (e\<lparr>activityInsertThrows := False\<rparr>) u cbody d)) \<and>
   snd (postJob e u cbody d) = snd (postJob (e\<lparr>activityInsertThrows := False\<rparr>) u cbody d) \<and>
   jobs (fst (putJob e u i body d)) =
     jobs (fst (putJob (e\<lparr>activityInsertThrows := False\<rparr>) u i body d)) \<and>
   snd (putJob e u i body d) = snd (putJob (e\<lparr>activityInsertThrows := False\<rparr>) u i body d) \<and>
   jobs (fst (deleteJob e u i d)) =
     jobs (fst (deleteJob (e\<lparr>activityInsertThrows := False\<rparr>) u i d)) \<and>
   snd (deleteJob e u i d) = snd (deleteJob (e\<lparr>activityInsertThrows := False\<rparr>) u i d) \<and>
   jobs (fst (executeJob e ie sj u i d)) =
     jobs (fst (executeJob (e\<lparr>activityInsertThrows := False\<rparr>) ie sj u i d)) \<and>
   snd (executeJob e ie sj u i d) =
     snd (executeJob (e\<lparr>activityInsertThrows := False\<rparr>) ie sj u i d) \<and>
   jobs (fst (reprioritizeJob e u i p d)) =
     jobs (fst (reprioritizeJob (e\<lparr>activityInsertThrows := False\<rparr>) u i p d)) \<and>
   snd (reprioritizeJob e u i p d) =
     snd (reprioritizeJob (e\<lparr>activityInsertThrows := False\<rparr>) u i p d)"
  using createActivity_cases[of e j n uid org d] postJob_env[of e u cbody d]
    putJob_env[of e u i body d] deleteJob_env[of e u i d] executeJob_env[of e ie sj u i d]
    reprioritizeJob_env[of e u i p d]
  by (intro conjI) (erule conjunct1 conjunct2 | assumption)+

theorem activity_failure_is_only_logged_witness:
  "activityInsertThrows ((exampleEnv 3 ''c'')\<lparr>activityInsertThrows := True\<rparr>) \<and>
   fst (snd (deleteJob ((exampleEnv 3 ''c'')\<lparr>activityInsertThrows := True\<rparr>) exampleUser
               ''job-a'' twoJobs)) = 200 \<and>
   map status (jobs (fst (deleteJob ((exampleEnv 3 ''c'')\<lparr>activityInsertThrows := True\<rparr>)
                            exampleUser ''job-a'' twoJobs))) = [Archived, Queued] \<and>
   fst (snd (reprioritizeJob ((exampleEnv 3 ''c'')\<lparr>activityInsertThrows := True\<rparr>) exampleUser
               ''job-b'' 0 twoJobs)) = 200 \<and>
   map orderInQueue (jobs (fst (reprioritizeJob ((exampleEnv 3 ''c'')\<lparr>activityInsertThrows := True\<rparr>)
                                  exampleUser ''job-b'' 0 twoJobs))) = [1, 0]"
proof -
  let ?e = "(exampleEnv 3 ''c'')\<lparr>activityInsertThrows := True\<rparr>"
  have off: "?e\<lparr>activityInsertThrows := False\<rparr> = exampleEnv 3 ''c''"
    by (simp add: exampleEnv_def)
  note ta = activity_failure_is_only_logged[where e = ?e and u = exampleUser and d = twoJobs
      and i = "''job-a''", unfolded off]
  note tb = activity_failure_is_only_logged[where e = ?e and u = exampleUser and d = twoJobs
      and i = "''job-b''" and p = 0, unfolded off]
  have d1: "snd (deleteJob ?e exampleUser ''job-a'' twoJobs) =
            snd (deleteJob (exampleEnv 3 ''c'') exampleUser ''job-a'' twoJobs)"
    and d2: "jobs (fst (deleteJob ?e exampleUser ''job-a'' twoJobs)) =
             jobs (fst (deleteJob (exampleEnv 3 ''c'') exampleUser ''job-a'' twoJobs))"
    using ta by blast+
  have r1: "snd (reprioritizeJob ?e exampleUser ''job-b'' 0 twoJobs) =
            snd (reprioritizeJob (exampleEnv 3 ''c'') exampleUser ''job-b'' 0 twoJobs)"
    and r2: "jobs (fst (reprioritizeJob ?e exampleUser ''job-b'' 0 twoJobs)) =
             jobs (fst (reprioritizeJob (exampleEnv 3 ''c'') exampleUser ''job-b'' 0 twoJobs))"
    using tb by blast+
  have a: "activityInsertThrows ?e" by simp
  have b: "fst (snd (deleteJob ?e exampleUser ''job-a'' twoJobs)) = 200"
    unfolding d1 by (simp add: ex_defs job_defs Let_def)
  have c: "map status (jobs (fst (deleteJob ?e exampleUser ''job-a'' twoJobs))) = [Archived, Queued]"
    unfolding d2 by (simp add: ex_defs job_defs Let_def)
  have f: "fst (snd (reprioritizeJob ?e exampleUser ''job-b'' 0 twoJobs)) = 200"
    unfolding r1
    by (simp add: ex_defs job_defs reprioritizeJob_def spliceAt_def writePosition_def Let_def)
  have g: "map orderInQueue (jobs (fst (reprioritizeJob ?e exampleUser ''job-b'' 0 twoJobs))) = [1, 0]"
    unfolding r2
    by (simp add: ex_defs job_defs reprioritizeJob_def spliceAt_def writePosition_def Let_def)
  from a b c f g show ?thesis by (intro conjI)
qed

section \<open>Single dispatch per agent\<close>























lemma heartbeat_jobs [simp]: "jobs (heartbeat now streams agent d) = jobs d"
  by (simp add: heartbeat_def Let_def)


lemma registerAgent_jobs [simp]:
  "jobs (fst (registerAgent h uuid S now apiKey hostname ipAddress p d)) = jobs d"
  by (simp add: registerAgent_def tryStartSchedules_def Let_def split: option.splits)

lemma pingAgentViaStream_jobs [simp]:
  "jobs (fst (pingAgentViaStream outcome now agent d)) = jobs d"
  by (simp add: pingAgentViaStream_def Let_def split: option.splits ping_outcome.splits)


lemma heartbeat_agents [simp]:
  "agents (heartbeat now streams agent d) = touchAgent now agent (agents d)"
  by (simp add: heartbeat_def Let_def)





end
